theory Spec2Isabelle
  imports Complex_Main "HOL-Library.Log_Nat"
begin

section \<open>Event generators of the simulation scripts\<close>

text \<open>
  The two generator scripts, \<^verbatim>\<open>steps/step_0_cascade_simulation.py\<close> and
  \<^verbatim>\<open>steps/step_0_muon_resimulation.py\<close>, embedded as HOL functions.
  The numbers the scripts draw and scale by a unit are modelled as reals, the values of
  the doubles, and a product with a unit is the exact one. The energies of a cascade event
  come out of a division and a subtraction (lines 139 and 140) whose results the claims
  compare: these two lines, and the products that store the energies, are computed in
  IEEE binary64 arithmetic, with rounding to nearest, ties to even, overflow to an
  infinity, and Python's ZeroDivisionError for a divisor that is zero.
\<close>

subsection \<open>Python errors\<close>

datatype error =
  ValueError string
  | ZeroDivisionError
  | IndexError
  | AttributeError

subsection \<open>IEEE binary64 arithmetic\<close>

text \<open>
  The exponent of a real other than 0: the \<open>e\<close> with \<open>2\<^sup>e \<le> |x| < 2\<^sup>e\<^sup>+\<^sup>1\<close>, computed
  from the bit length of an integer.
\<close>

definition exponent :: "real \<Rightarrow> int" where
  "exponent x =
     (if 1 \<le> \<bar>x\<bar> then bitlen \<lfloor>\<bar>x\<bar>\<rfloor> - 1 else - bitlen (\<lceil>1 / \<bar>x\<bar>\<rceil> - 1))"

text \<open>Rounding to the nearest integer, a tie to the even one.\<close>

definition round_half_even :: "real \<Rightarrow> int" where
  "round_half_even r =
     (let n = \<lfloor>r\<rfloor>; d = r - of_int n
      in if d < 1 / 2 then n else if 1 / 2 < d then n + 1 else if even n then n else n + 1)"

text \<open>
  Rounding a real to a significand of 53 bits: the unit in the last place is
  \<open>2\<^sup>e\<^sup>-\<^sup>5\<^sup>2\<close>, and \<open>2\<^sup>-\<^sup>1\<^sup>0\<^sup>7\<^sup>4\<close> in the subnormal range. The exponent is not bounded
  above here; \<open>round_double\<close> turns a result of magnitude \<open>2\<^sup>1\<^sup>0\<^sup>2\<^sup>4\<close> or more into an
  infinity.
\<close>

definition fl :: "real \<Rightarrow> real" where
  "fl x =
     (let q = 2 powi (max (exponent x) (- 1022) - 52)
      in of_int (round_half_even (x / q)) * q)"

datatype double = Finite real | PInf | NInf | NaN

definition round_double :: "real \<Rightarrow> double" where
  "round_double x =
     (let y = fl x
      in if 2 ^ 1024 \<le> y then PInf else if y \<le> - (2 ^ 1024) then NInf else Finite y)"

text \<open>Python's \<^verbatim>\<open>+\<close>, \<^verbatim>\<open>-\<close> and \<^verbatim>\<open>*\<close> on floats raise nothing.\<close>

fun dadd :: "double \<Rightarrow> double \<Rightarrow> double" where
  "dadd (Finite a) (Finite b) = round_double (a + b)"
| "dadd NaN _ = NaN"
| "dadd _ NaN = NaN"
| "dadd PInf NInf = NaN"
| "dadd NInf PInf = NaN"
| "dadd PInf _ = PInf"
| "dadd _ PInf = PInf"
| "dadd NInf _ = NInf"
| "dadd _ NInf = NInf"

fun dsub :: "double \<Rightarrow> double \<Rightarrow> double" where
  "dsub (Finite a) (Finite b) = round_double (a - b)"
| "dsub NaN _ = NaN"
| "dsub _ NaN = NaN"
| "dsub PInf PInf = NaN"
| "dsub NInf NInf = NaN"
| "dsub PInf _ = PInf"
| "dsub _ NInf = PInf"
| "dsub NInf _ = NInf"
| "dsub _ PInf = NInf"

fun dmul :: "double \<Rightarrow> double \<Rightarrow> double" where
  "dmul (Finite a) (Finite b) = round_double (a * b)"
| "dmul NaN _ = NaN"
| "dmul _ NaN = NaN"
| "dmul (Finite a) PInf = (if a = 0 then NaN else if 0 < a then PInf else NInf)"
| "dmul (Finite a) NInf = (if a = 0 then NaN else if 0 < a then NInf else PInf)"
| "dmul PInf (Finite b) = (if b = 0 then NaN else if 0 < b then PInf else NInf)"
| "dmul NInf (Finite b) = (if b = 0 then NaN else if 0 < b then NInf else PInf)"
| "dmul PInf PInf = PInf"
| "dmul NInf NInf = PInf"
| "dmul PInf NInf = NInf"
| "dmul NInf PInf = NInf"

text \<open>Python's \<^verbatim>\<open>/\<close> on floats raises when the divisor is zero.\<close>

fun ddiv :: "double \<Rightarrow> double \<Rightarrow> error + double" where
  "ddiv x (Finite b) =
     (if b = 0 then Inl ZeroDivisionError
      else Inr (case x of
                  Finite a \<Rightarrow> round_double (a / b)
                | PInf \<Rightarrow> if 0 < b then PInf else NInf
                | NInf \<Rightarrow> if 0 < b then NInf else PInf
                | NaN \<Rightarrow> NaN))"
| "ddiv NaN _ = Inr NaN"
| "ddiv _ NaN = Inr NaN"
| "ddiv (Finite a) _ = Inr (Finite 0)"
| "ddiv _ _ = Inr NaN"

subsection \<open>The IceTray collaborators\<close>

text \<open>
  The unit table \<^verbatim>\<open>I3Units\<close> and the constant \<^verbatim>\<open>I3Constants.c\<close> belong to
  the framework and not to the repository: every function that multiplies by a unit takes
  the table as a parameter.
\<close>

record icetray_constants =
  I3Units_m :: real
  I3Units_ns :: real
  I3Units_deg :: real
  I3Units_GeV :: real
  I3Constants_c :: real

text \<open>
  The random service is a collaborator as well. Its generator is a parameter: a state of
  any type with the two draws the scripts use. The service object pairs the generator's
  state with the list of the requests it has served, oldest first, so that the order of
  the draws can be stated.
\<close>

datatype draw = Uniform real real | Integer nat

record 'r generator =
  gen_uniform :: "'r \<Rightarrow> real \<Rightarrow> real \<Rightarrow> real \<times> 'r"
  gen_integer :: "'r \<Rightarrow> nat \<Rightarrow> nat \<times> 'r"

record 'r random_service =
  rng :: 'r
  calls :: "draw list"

text \<open>\<^verbatim>\<open>random_service.uniform(*range)\<close>, for a range \<^verbatim>\<open>[min, max]\<close>.\<close>

definition uniform ::
  "'r generator \<Rightarrow> 'r random_service \<Rightarrow> real \<times> real \<Rightarrow> real \<times> 'r random_service" where
  "uniform G rs r =
     (case gen_uniform G (rng rs) (fst r) (snd r) of
        (v, g) \<Rightarrow> (v, \<lparr>rng = g, calls = calls rs @ [Uniform (fst r) (snd r)]\<rparr>))"

text \<open>\<^verbatim>\<open>random_service.integer(n)\<close>.\<close>

definition integer ::
  "'r generator \<Rightarrow> 'r random_service \<Rightarrow> nat \<Rightarrow> nat \<times> 'r random_service" where
  "integer G rs n =
     (case gen_integer G (rng rs) n of
        (i, g) \<Rightarrow> (i, \<lparr>rng = g, calls = calls rs @ [Integer n]\<rparr>))"

subsection \<open>Particles, directions and trees\<close>

datatype ParticleType =
  unknown | NuE | NuMu | NuTau | EMinus | MuMinus | TauMinus | Hadrons

datatype ParticleShape = Null | Cascade | InfiniteTrack

datatype LocationType = Anywhere | InIce

record I3Position =
  pos_x :: real
  pos_y :: real
  pos_z :: real

record I3Direction =
  dir_zenith :: real
  dir_azimuth :: real

text \<open>
  Modelled from the spec: the classes \<^verbatim>\<open>I3Direction\<close> and \<^verbatim>\<open>I3Position\<close> of
  the framework are missing from the sources. A direction is a (zenith, azimuth) pair that
  converts to a unit vector; the components below are those of the framework, where the
  angles name the point of the sky the particle comes from. A position supports
  subtraction, and a number times a direction is the position that far along it.
\<close>

definition dir_x :: "I3Direction \<Rightarrow> real" where
  "dir_x d = - (sin (dir_zenith d) * cos (dir_azimuth d))"

definition dir_y :: "I3Direction \<Rightarrow> real" where
  "dir_y d = - (sin (dir_zenith d) * sin (dir_azimuth d))"

definition dir_z :: "I3Direction \<Rightarrow> real" where
  "dir_z d = - cos (dir_zenith d)"

definition I3Direction_rmul :: "real \<Rightarrow> I3Direction \<Rightarrow> I3Position" where
  "I3Direction_rmul a d = \<lparr>pos_x = a * dir_x d, pos_y = a * dir_y d, pos_z = a * dir_z d\<rparr>"

definition I3Position_sub :: "I3Position \<Rightarrow> I3Position \<Rightarrow> I3Position" where
  "I3Position_sub p q =
     \<lparr>pos_x = pos_x p - pos_x q, pos_y = pos_y p - pos_y q, pos_z = pos_z p - pos_z q\<rparr>"

definition distance :: "I3Position \<Rightarrow> I3Position \<Rightarrow> real" where
  "distance p q =
     sqrt ((pos_x p - pos_x q)\<^sup>2 + (pos_y p - pos_y q)\<^sup>2 + (pos_z p - pos_z q)\<^sup>2)"

text \<open>
  A particle. The scripts build one with \<^verbatim>\<open>I3Particle()\<close> and assign its fields;
  a field a script never assigns keeps the constructor's default (shape \<open>Null\<close>, type
  \<open>unknown\<close>). The energy is a double, which can be an infinity.
\<close>

record I3Particle =
  p_type :: ParticleType
  p_pos :: I3Position
  p_dir :: I3Direction
  p_time :: real
  p_energy :: double
  p_speed :: real
  p_shape :: ParticleShape
  p_location_type :: LocationType

text \<open>
  The tree of an event: its particles in the order they were added, each with its parent
  (\<open>None\<close> for a primary).
\<close>

type_synonym I3MCTree = "(I3Particle \<times> I3Particle option) list"

definition add_primary :: "I3MCTree \<Rightarrow> I3Particle \<Rightarrow> I3MCTree" where
  "add_primary t p = t @ [(p, None)]"

definition append_child :: "I3MCTree \<Rightarrow> I3Particle \<Rightarrow> I3Particle \<Rightarrow> I3MCTree" where
  "append_child t parent child = t @ [(child, Some parent)]"

text \<open>A frame: the keys a module has written, with their trees.\<close>

type_synonym I3Frame = "string \<rightharpoonup> I3MCTree"

subsection \<open>Python strings\<close>

text \<open>\<^verbatim>\<open>str.lower()\<close> on ASCII letters.\<close>

definition lower_char :: "char \<Rightarrow> char" where
  "lower_char ch =
     (case map_of (zip ''ABCDEFGHIJKLMNOPQRSTUVWXYZ'' ''abcdefghijklmnopqrstuvwxyz'') ch of
        Some l \<Rightarrow> l
      | None \<Rightarrow> ch)"

definition lower :: "string \<Rightarrow> string" where
  "lower s = map lower_char s"

text \<open>
  \<^verbatim>\<open>'{!r}'.format(s)\<close>, the \<^verbatim>\<open>repr\<close> of a Python 2 string: in single quotes, or in
  double quotes when the string has a single quote and no double quote; the quote in use
  and the backslash are escaped by a backslash, tab, newline and carriage return are
  written \<^verbatim>\<open>\t\<close>, \<^verbatim>\<open>\n\<close>, \<^verbatim>\<open>\r\<close>, and every other byte below the space or from
  127 on is written \<^verbatim>\<open>\x\<close> with its two hexadecimal digits.
\<close>

definition hex_digit :: "nat \<Rightarrow> char" where
  "hex_digit n = ''0123456789abcdef'' ! (n mod 16)"

definition repr_char :: "char \<Rightarrow> char \<Rightarrow> string" where
  "repr_char quote ch =
     (if ch = quote \<or> ch = CHR 0x5C then [CHR 0x5C, ch]
      else if ch = CHR 0x09 then [CHR 0x5C, CHR ''t'']
      else if ch = CHR 0x0A then [CHR 0x5C, CHR ''n'']
      else if ch = CHR 0x0D then [CHR 0x5C, CHR ''r'']
      else if (of_char ch :: nat) < 32 \<or> 127 \<le> (of_char ch :: nat)
        then [CHR 0x5C, CHR ''x'', hex_digit ((of_char ch :: nat) div 16),
              hex_digit ((of_char ch :: nat) mod 16)]
      else [ch])"

definition repr :: "string \<Rightarrow> string" where
  "repr s =
     (let quote = (if CHR 0x27 \<in> set s \<and> CHR 0x22 \<notin> set s then CHR 0x22 else CHR 0x27)
      in [quote] @ concat (map (repr_char quote) s) @ [quote])"

subsection \<open>The muon script\<close>

text \<open>\<^verbatim>\<open>create_muon\<close>: seven draws, then the vertex behind the anchor.\<close>

definition create_muon ::
  "'r generator \<Rightarrow> icetray_constants \<Rightarrow> real \<times> real \<Rightarrow> real \<times> real \<Rightarrow> real \<times> real \<Rightarrow>
   real \<times> real \<Rightarrow> real \<times> real \<Rightarrow> real \<times> real \<Rightarrow> real \<times> real \<Rightarrow> real \<Rightarrow>
   'r random_service \<Rightarrow> I3Particle \<times> 'r random_service" where
  "create_muon G U azimuth_range zenith_range energy_range anchor_time_range
       anchor_x_range anchor_y_range anchor_z_range length_to_go_back rs0 =
     (case uniform G rs0 azimuth_range of (ua, rs1) \<Rightarrow>
      case uniform G rs1 zenith_range of (uzen, rs2) \<Rightarrow>
      case uniform G rs2 energy_range of (ue, rs3) \<Rightarrow>
      case uniform G rs3 anchor_x_range of (anchor_x, rs4) \<Rightarrow>
      case uniform G rs4 anchor_y_range of (anchor_y, rs5) \<Rightarrow>
      case uniform G rs5 anchor_z_range of (anchor_z, rs6) \<Rightarrow>
      case uniform G rs6 anchor_time_range of (ut, rs7) \<Rightarrow>
        (let azimuth = ua * I3Units_deg U;
             zenith = uzen * I3Units_deg U;
             energy = ue * I3Units_GeV U;
             muon_speed = I3Constants_c U;
             muon_dir = \<lparr>dir_zenith = zenith, dir_azimuth = azimuth\<rparr>;
             anchor = \<lparr>pos_x = anchor_x * I3Units_m U,
                       pos_y = anchor_y * I3Units_m U,
                       pos_z = anchor_z * I3Units_m U\<rparr>;
             anchor_time = ut * I3Units_ns U;
             vertex = I3Position_sub anchor
                        (I3Direction_rmul (length_to_go_back * I3Units_m U) muon_dir);
             travel_time = length_to_go_back * I3Units_m U / muon_speed;
             vertex_time = anchor_time - travel_time * I3Units_ns U
         in (\<lparr>p_type = MuMinus,
              p_pos = vertex,
              p_dir = muon_dir,
              p_time = vertex_time * I3Units_ns U,
              p_energy = Finite (energy * I3Units_GeV U),
              p_speed = muon_speed,
              p_shape = Null,
              p_location_type = InIce\<rparr>, rs7)))"

text \<open>\<^verbatim>\<open>ParticleMultiplier\<close>: the module that emits the primary it was given.\<close>

record ParticleMultiplier =
  pm_num_events :: int
  pm_primary :: I3Particle
  pm_events_done :: int

definition PM_Configure :: "int \<Rightarrow> I3Particle \<Rightarrow> ParticleMultiplier" where
  "PM_Configure n p = \<lparr>pm_num_events = n, pm_primary = p, pm_events_done = 0\<rparr>"

definition PM_DAQ :: "ParticleMultiplier \<Rightarrow> I3Frame \<Rightarrow> I3Frame \<times> ParticleMultiplier \<times> bool" where
  "PM_DAQ self frame =
     (let mctree = add_primary [] (pm_primary self);
          frame = frame(''I3MCTree_preMuonProp'' \<mapsto> mctree);
          self = self\<lparr>pm_events_done := pm_events_done self + 1\<rparr>
      in (frame, self, pm_num_events self \<le> pm_events_done self))"

text \<open>
  Modelled from the spec: the framework's run loop again, over the ParticleMultiplier,
  which raises nothing.
\<close>

function PM_Execute :: "ParticleMultiplier \<Rightarrow> I3Frame list \<times> ParticleMultiplier" where
  "PM_Execute self =
     (case PM_DAQ self Map.empty of
        (frame, self', suspend) \<Rightarrow>
          if suspend then ([frame], self')
          else (case PM_Execute self' of (frames, r) \<Rightarrow> (frame # frames, r)))"
  by pat_completeness auto
termination
  by (relation "measure (\<lambda>self. nat (pm_num_events self - pm_events_done self))")
    (auto simp: PM_DAQ_def Let_def)

declare PM_Execute.simps [simp del]

text \<open>The configuration the muon script reads, and its \<^verbatim>\<open>main\<close> from the muon on.\<close>

record muon_cfg =
  cfg_azimuth_min :: real
  cfg_azimuth_max :: real
  cfg_zenith_min :: real
  cfg_zenith_max :: real
  cfg_e_min :: real
  cfg_e_max :: real
  cfg_anchor_time_range :: "real \<times> real"
  cfg_anchor_x_range :: "real \<times> real"
  cfg_anchor_y_range :: "real \<times> real"
  cfg_anchor_z_range :: "real \<times> real"
  cfg_length_to_go_back :: real
  cfg_n_events_per_run :: int

definition muon_main ::
  "'r generator \<Rightarrow> icetray_constants \<Rightarrow> muon_cfg \<Rightarrow> 'r random_service \<Rightarrow>
   (I3Frame list \<times> ParticleMultiplier) \<times> 'r random_service" where
  "muon_main G U cfg rs =
     (case create_muon G U
             (cfg_azimuth_min cfg, cfg_azimuth_max cfg)
             (cfg_zenith_min cfg, cfg_zenith_max cfg)
             (cfg_e_min cfg, cfg_e_max cfg)
             (cfg_anchor_time_range cfg)
             (cfg_anchor_x_range cfg)
             (cfg_anchor_y_range cfg)
             (cfg_anchor_z_range cfg)
             (cfg_length_to_go_back cfg) rs of
        (muon, rs') \<Rightarrow>
          (PM_Execute (PM_Configure (cfg_n_events_per_run cfg) muon), rs'))"

subsection \<open>CascadeFactory\<close>

text \<open>
  The parameters of the module, as \<^verbatim>\<open>GetParameter\<close> returns them. A range is the
  pair of a two-element list \<^verbatim>\<open>[min, max]\<close>.
\<close>

record CascadeFactory_parameters =
  param_azimuth_range :: "real \<times> real"
  param_zenith_range :: "real \<times> real"
  param_hadron_energy_range :: "real \<times> real"
  param_fractional_energy_in_hadrons_range :: "real \<times> real"
  param_time_range :: "real \<times> real"
  param_x_range :: "real \<times> real"
  param_y_range :: "real \<times> real"
  param_z_range :: "real \<times> real"
  param_flavors :: "string list"
  param_interaction_types :: "string list"
  param_random_state :: int
  param_num_events :: int

text \<open>The attributes of the module after \<^verbatim>\<open>Configure\<close>.\<close>

record CascadeFactory =
  azimuth_range :: "real \<times> real"
  zenith_range :: "real \<times> real"
  hadron_energy_range :: "real \<times> real"
  fractional_energy_in_hadrons_range :: "real \<times> real"
  time_range :: "real \<times> real"
  x_range :: "real \<times> real"
  y_range :: "real \<times> real"
  z_range :: "real \<times> real"
  flavors :: "string list"
  num_flavors :: nat
  interaction_types :: "string list"
  num_interaction_types :: nat
  random_state :: int
  num_events :: int
  events_done :: int
  eps :: real

text \<open>
  \<^verbatim>\<open>CascadeFactory.Configure\<close>: the attributes are read, the two lists are made
  lowercase, and the sanity checks run, the interaction types first. The random state
  the parameter gives is an integer seed: line 82 builds a
  \<^verbatim>\<open>numpy.random.RandomState\<close> from it, which raises a ValueError unless the seed is
  from 0 to \<open>2\<^sup>3\<^sup>2 - 1\<close>, before the lists are looked at. The literal \<^verbatim>\<open>1e-6\<close> is the
  double nearest to it.
\<close>

definition Configure :: "CascadeFactory_parameters \<Rightarrow> error + CascadeFactory" where
  "Configure P =
     (if param_random_state P < 0 \<or> 4294967295 < param_random_state P
      then Inl (ValueError ''Seed must be between 0 and 2**32 - 1'')
      else
      let self = \<lparr>azimuth_range = param_azimuth_range P,
                  zenith_range = param_zenith_range P,
                  hadron_energy_range = param_hadron_energy_range P,
                  fractional_energy_in_hadrons_range =
                    param_fractional_energy_in_hadrons_range P,
                  time_range = param_time_range P,
                  x_range = param_x_range P,
                  y_range = param_y_range P,
                  z_range = param_z_range P,
                  flavors = map lower (param_flavors P),
                  num_flavors = length (param_flavors P),
                  interaction_types = map lower (param_interaction_types P),
                  num_interaction_types = length (param_interaction_types P),
                  random_state = param_random_state P,
                  num_events = param_num_events P,
                  events_done = 0,
                  eps = fl (1 / 1000000)\<rparr>
      in case find (\<lambda>int_type. int_type \<notin> set [''cc'', ''nc'']) (interaction_types self) of
           Some int_type \<Rightarrow> Inl (ValueError (''Interaction unkown: '' @ repr int_type))
         | None \<Rightarrow>
             (case find (\<lambda>flavor. flavor \<notin> set [''nue'', ''numu'', ''nutau'']) (flavors self) of
                Some flavor \<Rightarrow> Inl (ValueError (''Flavor unkown: '' @ repr flavor))
              | None \<Rightarrow> Inr self))"

text \<open>
  \<^verbatim>\<open>CascadeFactory.DAQ\<close>, in the sections of the source. First the eight uniform
  draws of lines 120 to 138.
\<close>

record cascade_sample =
  vertex :: I3Position
  vertex_time :: real
  azimuth :: real
  zenith :: real
  hadron_energy :: real
  fraction :: real

definition DAQ_sample ::
  "'r generator \<Rightarrow> icetray_constants \<Rightarrow> CascadeFactory \<Rightarrow> 'r random_service \<Rightarrow>
   cascade_sample \<times> 'r random_service" where
  "DAQ_sample G U self rs0 =
     (case uniform G rs0 (x_range self) of (ux, rs1) \<Rightarrow>
      case uniform G rs1 (y_range self) of (uy, rs2) \<Rightarrow>
      case uniform G rs2 (z_range self) of (uz, rs3) \<Rightarrow>
      case uniform G rs3 (time_range self) of (ut, rs4) \<Rightarrow>
      case uniform G rs4 (azimuth_range self) of (ua, rs5) \<Rightarrow>
      case uniform G rs5 (zenith_range self) of (uzen, rs6) \<Rightarrow>
      case uniform G rs6 (hadron_energy_range self) of (uh, rs7) \<Rightarrow>
      case uniform G rs7 (fractional_energy_in_hadrons_range self) of (uf, rs8) \<Rightarrow>
        (let vertex_x = ux * I3Units_m U;
             vertex_y = uy * I3Units_m U;
             vertex_z = uz * I3Units_m U
         in \<lparr>vertex = \<lparr>pos_x = vertex_x * I3Units_m U,
                        pos_y = vertex_y * I3Units_m U,
                        pos_z = vertex_z * I3Units_m U\<rparr>,
             vertex_time = ut * I3Units_ns U,
             azimuth = ua * I3Units_deg U,
             zenith = uzen * I3Units_deg U,
             hadron_energy = uh * I3Units_GeV U,
             fraction = uf\<rparr>, rs8))"

text \<open>
  Lines 139 and 140: the partition of the energy, in binary64 arithmetic. The sum
  \<^verbatim>\<open>self.eps + fraction\<close> is rounded, the division raises when that sum is zero and its
  quotient is rounded, and so is the difference.
\<close>

definition DAQ_energies :: "CascadeFactory \<Rightarrow> real \<Rightarrow> real \<Rightarrow> error + double \<times> double" where
  "DAQ_energies self h f =
     (case ddiv (Finite h) (dadd (Finite (eps self)) (Finite f)) of
        Inl e \<Rightarrow> Inl e
      | Inr primary_energy \<Rightarrow>
          (let daughter_energy = dsub primary_energy (Finite h)
           in Inr (primary_energy, daughter_energy)))"

text \<open>Lines 143 to 145: the flavor and the interaction type, each by an index drawn.\<close>

definition DAQ_flavor_interaction ::
  "'r generator \<Rightarrow> CascadeFactory \<Rightarrow> 'r random_service \<Rightarrow>
   error + (string \<times> string) \<times> 'r random_service" where
  "DAQ_flavor_interaction G self rs0 =
     (case integer G rs0 (num_flavors self) of (i, rs1) \<Rightarrow>
        if length (flavors self) \<le> i then Inl IndexError
        else (case integer G rs1 (num_interaction_types self) of (j, rs2) \<Rightarrow>
          if length (interaction_types self) \<le> j then Inl IndexError
          else Inr ((flavors self ! i, interaction_types self ! j), rs2)))"

text \<open>Lines 167 to 170: the shape of the daughter.\<close>

definition daughter_shape :: "string \<Rightarrow> string \<Rightarrow> ParticleShape" where
  "daughter_shape flavor interaction_type =
     (if interaction_type = ''cc'' \<and> flavor = ''numu'' then InfiniteTrack else Cascade)"

text \<open>
  Lines 172 to 192: the types of the primary and of the daughter. An interaction type
  that is neither \<^verbatim>\<open>'cc'\<close> nor \<^verbatim>\<open>'nc'\<close> leaves the daughter's type at its
  default. The last branch formats its message with \<^verbatim>\<open>self.particle_type\<close>, an
  attribute the module does not have, so what it raises is an AttributeError.
\<close>

definition particle_types :: "string \<Rightarrow> string \<Rightarrow> error + ParticleType \<times> ParticleType" where
  "particle_types flavor interaction_type =
     (if flavor = ''numu'' then
        Inr (NuMu, if interaction_type = ''cc'' then MuMinus
                   else if interaction_type = ''nc'' then NuMu else unknown)
      else if flavor = ''nutau'' then
        Inr (NuTau, if interaction_type = ''cc'' then TauMinus
                    else if interaction_type = ''nc'' then NuTau else unknown)
      else if flavor = ''nue'' then
        Inr (NuE, if interaction_type = ''cc'' then EMinus
                  else if interaction_type = ''nc'' then NuE else unknown)
      else Inl AttributeError)"

text \<open>Lines 148 to 203: the three particles of the event.\<close>

definition DAQ_particles ::
  "icetray_constants \<Rightarrow> cascade_sample \<Rightarrow> double \<Rightarrow> double \<Rightarrow> string \<Rightarrow> string \<Rightarrow>
   error + I3Particle \<times> I3Particle \<times> I3Particle" where
  "DAQ_particles U smp primary_energy daughter_energy flavor interaction_type =
     (case particle_types flavor interaction_type of
        Inl e \<Rightarrow> Inl e
      | Inr (primary_type, daughter_type) \<Rightarrow>
          (let primary = \<lparr>p_type = primary_type,
                          p_pos = vertex smp,
                          p_dir = \<lparr>dir_zenith = zenith smp, dir_azimuth = azimuth smp\<rparr>,
                          p_time = vertex_time smp * I3Units_ns U,
                          p_energy = dmul primary_energy (Finite (I3Units_GeV U)),
                          p_speed = I3Constants_c U,
                          p_shape = Null,
                          p_location_type = InIce\<rparr>;
               daughter = \<lparr>p_type = daughter_type,
                           p_pos = p_pos primary,
                           p_dir = p_dir primary,
                           p_time = p_time primary,
                           p_energy = dmul daughter_energy (Finite (I3Units_GeV U)),
                           p_speed = p_speed primary,
                           p_shape = daughter_shape flavor interaction_type,
                           p_location_type = InIce\<rparr>;
               hadrons = \<lparr>p_type = Hadrons,
                          p_pos = p_pos daughter,
                          p_dir = p_dir daughter,
                          p_time = p_time daughter,
                          p_energy = dmul (Finite (hadron_energy smp)) (Finite (I3Units_GeV U)),
                          p_speed = p_speed daughter,
                          p_shape = Cascade,
                          p_location_type = p_location_type daughter\<rparr>
           in Inr (primary, daughter, hadrons)))"

text \<open>
  The whole of \<^verbatim>\<open>DAQ\<close>. It returns the frame it pushes, the module with its counter
  advanced, the random service, and whether it requested the suspension of the run. An
  exception ends it with no frame pushed.
\<close>

definition DAQ ::
  "'r generator \<Rightarrow> icetray_constants \<Rightarrow> CascadeFactory \<Rightarrow> 'r random_service \<Rightarrow> I3Frame \<Rightarrow>
   error + I3Frame \<times> CascadeFactory \<times> 'r random_service \<times> bool" where
  "DAQ G U self rs0 frame =
     (case DAQ_sample G U self rs0 of (smp, rs1) \<Rightarrow>
      (case DAQ_energies self (hadron_energy smp) (fraction smp) of
        Inl e \<Rightarrow> Inl e
      | Inr (primary_energy, daughter_energy) \<Rightarrow>
      (case DAQ_flavor_interaction G self rs1 of
        Inl e \<Rightarrow> Inl e
      | Inr ((flavor, interaction_type), rs2) \<Rightarrow>
      (case DAQ_particles U smp primary_energy daughter_energy flavor interaction_type of
        Inl e \<Rightarrow> Inl e
      | Inr (primary, daughter, hadrons) \<Rightarrow>
          (let mctree = add_primary [] primary;
               mctree = append_child mctree primary daughter;
               mctree = append_child mctree primary hadrons;
               frame = frame(''I3MCTree_preMuonProp'' \<mapsto> mctree);
               self = self\<lparr>events_done := events_done self + 1\<rparr>
           in Inr (frame, self, rs2, num_events self \<le> events_done self))))))"

text \<open>
  Modelled from the spec: the framework's run loop (\<^verbatim>\<open>I3Tray.Execute\<close> over an
  \<^verbatim>\<open>I3InfiniteSource\<close>) is missing from the sources. It hands the module one empty
  frame after the other and stops after the call in which the module requested the
  suspension; an exception ends the run. The result is the list of the frames pushed and
  either the exception or the module and the random service at the end.
\<close>

function Execute ::
  "'r generator \<Rightarrow> icetray_constants \<Rightarrow> CascadeFactory \<Rightarrow> 'r random_service \<Rightarrow>
   I3Frame list \<times> (error + CascadeFactory \<times> 'r random_service)" where
  "Execute G U self rs =
     (case DAQ G U self rs Map.empty of
        Inl e \<Rightarrow> ([], Inl e)
      | Inr (frame, self', rs', suspend) \<Rightarrow>
          if suspend then ([frame], Inr (self', rs'))
          else (case Execute G U self' rs' of (frames, r) \<Rightarrow> (frame # frames, r)))"
  by pat_completeness auto
termination
proof (relation "measure (\<lambda>(G, U, self, rs). nat (num_events self - events_done self))")
  show "wf (measure (\<lambda>(G, U, self, rs). nat (num_events self - events_done self)))"
    by simp
next
  fix G :: "'r generator" and U self rs x2 frame y self' ya rs' suspend
  assume "DAQ G U self rs Map.empty = Inr x2" "(frame, y) = x2" "(self', ya) = y"
    "(rs', suspend) = ya" "\<not> suspend"
  then have "DAQ G U self rs Map.empty = Inr (frame, self', rs', False)"
    by auto
  then have "self' = self\<lparr>events_done := events_done self + 1\<rparr> \<and>
      \<not> num_events self \<le> events_done self + 1"
    by (auto simp: DAQ_def Let_def split: prod.splits sum.splits)
  then show "((G, U, self', rs'), (G, U, self, rs))
      \<in> measure (\<lambda>(G, U, self, rs). nat (num_events self - events_done self))"
    by auto
qed

declare Execute.simps [simp del]

text \<open>
  The script's \<^verbatim>\<open>main\<close>, from the module on: the service is the first of the two
  that \<^verbatim>\<open>create_random_services\<close> returns for the configured seed, a function that
  is not part of the sources.
\<close>

definition cascade_main ::
  "'r generator \<Rightarrow> icetray_constants \<Rightarrow> CascadeFactory_parameters \<Rightarrow> 'r random_service \<Rightarrow>
   I3Frame list \<times> (error + CascadeFactory \<times> 'r random_service)" where
  "cascade_main G U P rs =
     (case Configure P of
        Inl e \<Rightarrow> ([], Inl e)
      | Inr self \<Rightarrow> Execute G U self rs)"

subsection \<open>Concrete collaborators\<close>

text \<open>
  The values of the framework's unit system (metre, nanosecond and GeV are 1, a degree is
  \<open>\<pi> / 180\<close>, the speed of light is in metres per nanosecond), a generator that returns
  the lower bound of every range and the index 0, and the default parameters of the
  cascade module. They serve to run the model on concrete inputs.
\<close>

definition icetray :: icetray_constants where
  "icetray = \<lparr>I3Units_m = 1, I3Units_ns = 1, I3Units_deg = pi / 180, I3Units_GeV = 1,
              I3Constants_c = 299792458 / 1000000000\<rparr>"

definition lowest :: "nat generator" where
  "lowest = \<lparr>gen_uniform = (\<lambda>g lo hi. (lo, Suc g)), gen_integer = (\<lambda>g n. (0, Suc g))\<rparr>"

definition fresh :: "nat random_service" where
  "fresh = \<lparr>rng = 0, calls = []\<rparr>"

definition defaults :: CascadeFactory_parameters where
  "defaults = \<lparr>param_azimuth_range = (0, 360),
               param_zenith_range = (0, 180),
               param_hadron_energy_range = (10000, 10000),
               param_fractional_energy_in_hadrons_range = (0, 1),
               param_time_range = (9000, 12000),
               param_x_range = (- 500, 500),
               param_y_range = (- 500, 500),
               param_z_range = (- 500, 500),
               param_flavors = [''NuE'', ''NuMu'', ''NuTau''],
               param_interaction_types = [''CC'', ''NC''],
               param_random_state = 1337,
               param_num_events = 1\<rparr>"

section \<open>Properties\<close>

subsection \<open>Rounding\<close>

lemma exponent_ge1:
  assumes "1 \<le> \<bar>x\<bar>"
  shows "2 powi exponent x \<le> \<bar>x\<bar>" and "\<bar>x\<bar> < 2 powi (exponent x + 1)"
proof -
  let ?n = "\<lfloor>\<bar>x\<bar>\<rfloor>"
  from assms have n: "0 < ?n" by simp
  from bitlen_bounds [OF n] have lo: "2 ^ nat (bitlen ?n - 1) \<le> ?n" and hi: "?n < 2 ^ nat (bitlen ?n)"
    by simp_all
  from n have b: "1 \<le> bitlen ?n" by (simp add: bitlen_alt_def)
  have e: "exponent x = bitlen ?n - 1" using assms by (simp add: exponent_def)
  from lo have "(2::real) ^ nat (bitlen ?n - 1) \<le> of_int ?n"
    by (metis of_int_le_iff of_int_numeral of_int_power)
  also have "\<dots> \<le> \<bar>x\<bar>" by simp
  finally show "2 powi exponent x \<le> \<bar>x\<bar>"
    using b by (simp add: e power_int_def)
  from hi have "?n + 1 \<le> 2 ^ nat (bitlen ?n)" by simp
  then have u: "of_int (?n + 1) \<le> (2::real) ^ nat (bitlen ?n)"
    by (metis of_int_le_iff of_int_numeral of_int_power)
  have "\<bar>x\<bar> < of_int (?n + 1)" by linarith
  also note u
  finally have "\<bar>x\<bar> < 2 ^ nat (bitlen ?n)" .
  then show "\<bar>x\<bar> < 2 powi (exponent x + 1)"
    using b by (simp add: e power_int_def)
qed

lemma exponent_lt1:
  assumes "x \<noteq> 0" and "\<bar>x\<bar> < 1"
  shows "2 powi exponent x \<le> \<bar>x\<bar>" and "\<bar>x\<bar> < 2 powi (exponent x + 1)"
proof -
  define y where "y = 1 / \<bar>x\<bar>"
  let ?m = "\<lceil>y\<rceil> - 1"
  from assms have y1: "1 < y" and yp: "0 < y" by (simp_all add: y_def)
  then have m: "0 < ?m" by linarith
  from bitlen_bounds [OF m] have lo: "2 ^ nat (bitlen ?m - 1) \<le> ?m" and hi: "?m < 2 ^ nat (bitlen ?m)"
    by simp_all
  from m have b: "1 \<le> bitlen ?m" by (simp add: bitlen_alt_def)
  have e: "exponent x = - bitlen ?m" using assms by (simp add: exponent_def y_def)
  from hi have "?m + 1 \<le> 2 ^ nat (bitlen ?m)" by simp
  then have u: "of_int (?m + 1) \<le> (2::real) ^ nat (bitlen ?m)"
    by (metis of_int_le_iff of_int_numeral of_int_power)
  have "y \<le> of_int (?m + 1)" by linarith
  also note u
  finally have yu: "y \<le> 2 ^ nat (bitlen ?m)" .
  from lo have "(2::real) ^ nat (bitlen ?m - 1) \<le> of_int ?m"
    by (metis of_int_le_iff of_int_numeral of_int_power)
  also have "of_int ?m < y" by linarith
  finally have yl: "2 ^ nat (bitlen ?m - 1) < y" .
  have x: "\<bar>x\<bar> = 1 / y" using assms by (simp add: y_def)
  from yu yp have "1 / 2 ^ nat (bitlen ?m) \<le> 1 / y"
    by (simp add: frac_le)
  then show "2 powi exponent x \<le> \<bar>x\<bar>"
    using b by (simp add: e x power_int_def field_simps)
  from yl have "1 / y < 1 / 2 ^ nat (bitlen ?m - 1)"
    by (simp add: frac_less2)
  moreover have "(1::real) / 2 ^ nat (bitlen ?m - 1) = 2 powi (exponent x + 1)"
  proof (cases "bitlen ?m = 1")
    case True
    then show ?thesis by (simp add: e)
  next
    case False
    with b have "1 < bitlen ?m" by simp
    then have "nat (bitlen ?m - 1) = nat (- (1 - bitlen ?m))" "1 - bitlen ?m < 0" by simp_all
    then show ?thesis by (simp add: e power_int_def field_simps)
  qed
  ultimately show "\<bar>x\<bar> < 2 powi (exponent x + 1)"
    by (simp only: x)
qed

lemma exponent_bounds:
  assumes "x \<noteq> 0"
  shows "2 powi exponent x \<le> \<bar>x\<bar>" and "\<bar>x\<bar> < 2 powi (exponent x + 1)"
  using assms exponent_ge1 [of x] exponent_lt1 [of x]
  by (cases "1 \<le> \<bar>x\<bar>"; simp)+

lemma exponent_eqI:
  assumes "2 powi e \<le> \<bar>x\<bar>" and "\<bar>x\<bar> < 2 powi (e + 1)"
  shows "exponent x = e"
proof -
  have x: "x \<noteq> 0"
  proof
    assume "x = 0"
    with assms(1) have "2 powi e \<le> (0::real)" by simp
    moreover have "(0::real) < 2 powi e" by (rule zero_less_power_int) simp
    ultimately show False by linarith
  qed
  note b = exponent_bounds [OF x]
  have "\<not> exponent x + 1 \<le> e"
  proof
    assume "exponent x + 1 \<le> e"
    then have "(2::real) powi (exponent x + 1) \<le> 2 powi e"
      by (intro power_int_increasing) simp_all
    with b(2) assms(1) show False by linarith
  qed
  moreover have "\<not> e + 1 \<le> exponent x"
  proof
    assume "e + 1 \<le> exponent x"
    then have "(2::real) powi (e + 1) \<le> 2 powi exponent x"
      by (intro power_int_increasing) simp_all
    with b(1) assms(2) show False by linarith
  qed
  ultimately show ?thesis by linarith
qed

lemma fl_eqI:
  assumes "2 powi e \<le> \<bar>x\<bar>" and "\<bar>x\<bar> < 2 powi (e + 1)" and "- 1022 \<le> e"
  shows "fl x = of_int (round_half_even (x / 2 powi (e - 52))) * 2 powi (e - 52)"
  using exponent_eqI [OF assms(1,2)] assms(3) by (simp add: fl_def max_def Let_def)

lemma abs_scaled:
  fixes q :: real
  assumes "0 < q"
  shows "\<bar>a * q - x\<bar> = \<bar>a - x / q\<bar> * q"
proof -
  from assms have "a * q - x = (a - x / q) * q" by (simp add: field_simps)
  then have "\<bar>a * q - x\<bar> = \<bar>a - x / q\<bar> * \<bar>q\<bar>" by (simp only: abs_mult)
  with assms show ?thesis by simp
qed

lemma round_half_even_error: "\<bar>of_int (round_half_even r) - r\<bar> \<le> 1 / 2"
  unfolding round_half_even_def Let_def by (auto; linarith)

lemma fl_zero: "fl 0 = 0"
  by (simp add: fl_def round_half_even_def)

lemma fl_error: "\<bar>fl x - x\<bar> \<le> max (\<bar>x\<bar> / 2 ^ 53) (1 / 2 ^ 1075)"
proof (cases "x = 0")
  case True
  then show ?thesis by (simp add: fl_zero)
next
  case False
  define e where "e = max (exponent x) (- 1022)"
  define q :: real where "q = 2 powi (e - 52)"
  have qp: "0 < q" by (simp add: q_def)
  have f: "fl x = of_int (round_half_even (x / q)) * q"
    by (simp add: fl_def q_def e_def Let_def)
  have "\<bar>fl x - x\<bar> = \<bar>of_int (round_half_even (x / q)) - x / q\<bar> * q"
    unfolding f by (rule abs_scaled [OF qp])
  also have "\<dots> \<le> 1 / 2 * q"
    using qp round_half_even_error [of "x / q"] by (intro mult_right_mono) simp_all
  finally have h: "\<bar>fl x - x\<bar> \<le> q / 2" by simp
  show ?thesis
  proof (cases "- 1022 \<le> exponent x")
    case True
    then have "e = exponent x" by (simp add: e_def)
    then have "q / 2 = 2 powi exponent x / 2 ^ 53"
      by (simp add: q_def power_int_diff)
    also have "\<dots> \<le> \<bar>x\<bar> / 2 ^ 53"
      using exponent_bounds(1) [OF False] by (intro divide_right_mono) simp_all
    finally have "q / 2 \<le> \<bar>x\<bar> / 2 ^ 53" .
    with h have "\<bar>fl x - x\<bar> \<le> \<bar>x\<bar> / 2 ^ 53" by (rule order_trans)
    then show ?thesis by (rule max.coboundedI1)
  next
    case False
    then have "e = - 1022" by (simp add: e_def)
    then have "q = 2 powi (- 1074)" by (simp add: q_def)
    also have "\<dots> = 1 / 2 ^ 1074"
      by (simp only: power_int_minus power_int_numeral inverse_eq_divide)
    finally have "q / 2 = 1 / (2 ^ 1074 * 2)" by (simp only: divide_divide_eq_left)
    also have "(2::real) ^ 1074 * 2 = 2 ^ Suc 1074" by (simp only: power_Suc2)
    also have "Suc 1074 = 1075" by simp
    finally have "\<bar>fl x - x\<bar> \<le> 1 / 2 ^ 1075" using h by (simp only:)
    then show ?thesis by (rule max.coboundedI2)
  qed
qed

lemma round_half_even_eqI:
  assumes "\<bar>r - of_int n\<bar> < 1 / 2"
  shows "round_half_even r = n"
proof -
  from assms have "\<lfloor>r\<rfloor> = n \<or> \<lfloor>r\<rfloor> = n - 1" by linarith
  with assms show ?thesis
    unfolding round_half_even_def Let_def by (auto; linarith)
qed

lemma fl_nearest:
  assumes "2 powi e \<le> \<bar>x\<bar>" and "\<bar>x\<bar> < 2 powi (e + 1)" and "- 1022 \<le> e"
    and "\<bar>x - of_int n * 2 powi (e - 52)\<bar> < 2 powi (e - 53)"
  shows "fl x = of_int n * 2 powi (e - 52)"
proof -
  define q :: real where "q = 2 powi (e - 52)"
  have qp: "0 < q" unfolding q_def by (rule zero_less_power_int) simp
  have h: "2 powi (e - 53) = q / 2"
    by (simp add: q_def power_int_diff)
  have "\<bar>x / q - of_int n\<bar> = \<bar>x - of_int n * q\<bar> / q"
    using abs_scaled [OF qp, of "of_int n" x] qp by (simp add: abs_minus_commute field_simps)
  also have "\<dots> < (q / 2) / q"
    using assms(4) qp unfolding q_def [symmetric] h by (intro divide_strict_right_mono) simp_all
  also have "\<dots> = 1 / 2" using qp by simp
  finally have "round_half_even (x / q) = n" by (rule round_half_even_eqI)
  with fl_eqI [OF assms(1-3)] show ?thesis by (simp add: q_def)
qed

lemma fl_1e_6: "fl (1 / 1000000) = 4722366482869645 / 4722366482869645213696"
proof -
  have "fl (1 / 1000000) = of_int 4722366482869645 * 2 powi (- 20 - 52)"
    by (rule fl_nearest) (simp_all add: power_int_def power_one_over)
  then show ?thesis by (simp add: power_int_def power_one_over)
qed

lemma round_double_Finite:
  assumes "\<bar>fl x\<bar> < 2 ^ 1024"
  shows "round_double x = Finite (fl x)"
  using assms unfolding round_double_def Let_def by (auto simp: abs_less_iff simp del: power_numeral)

lemma round_double_Finite_D:
  assumes "round_double x = Finite y"
  shows "y = fl x"
  using assms unfolding round_double_def Let_def by (auto split: if_splits)

lemma fl_eps_idem:
  "fl (4722366482869645 / 4722366482869645213696) = 4722366482869645 / 4722366482869645213696"
proof -
  have "fl (4722366482869645 / 4722366482869645213696) = of_int 4722366482869645 * 2 powi (- 20 - 52)"
    by (rule fl_nearest) (simp_all add: power_int_def power_one_over)
  then show ?thesis by (simp add: power_int_def power_one_over)
qed

lemma dadd_eps_zero:
  "dadd (Finite (fl (1 / 1000000))) (Finite 0) = Finite (4722366482869645 / 4722366482869645213696)"
proof -
  have "\<bar>fl (4722366482869645 / 4722366482869645213696)\<bar> < 2 ^ 1024"
    by (simp add: fl_eps_idem)
  from round_double_Finite [OF this] show ?thesis
    by (simp add: fl_1e_6 fl_eps_idem)
qed

subsection \<open>Configuration\<close>

lemma Configure_Inr:
  assumes "Configure P = Inr s"
  shows "flavors s = map lower (param_flavors P)"
    and "interaction_types s = map lower (param_interaction_types P)"
    and "num_flavors s = length (flavors s)"
    and "num_interaction_types s = length (interaction_types s)"
    and "eps s = fl (1 / 1000000)"
    and "events_done s = 0"
    and "num_events s = param_num_events P"
    and "set (flavors s) \<subseteq> {''nue'', ''numu'', ''nutau''}"
    and "set (interaction_types s) \<subseteq> {''cc'', ''nc''}"
    and "0 \<le> param_random_state P" and "param_random_state P \<le> 4294967295"
    and "random_state s = param_random_state P"
  using assms
  by (auto simp: Configure_def Let_def find_None_iff split: option.splits if_splits)

lemma Configure_Inl:
  assumes "Configure P = Inl e"
  shows "\<exists>msg. e = ValueError msg"
  using assms
  by (auto simp: Configure_def Let_def split: option.splits if_splits)

lemma find_Some_mem: "find Q xs = Some x \<Longrightarrow> x \<in> set xs \<and> Q x"
  by (induction xs) (auto split: if_splits)

lemma Configure_succeeds:
  assumes "\<forall>f\<in>set (param_flavors P). lower f \<in> {''nue'', ''numu'', ''nutau''}"
    and "\<forall>i\<in>set (param_interaction_types P). lower i \<in> {''cc'', ''nc''}"
    and "0 \<le> param_random_state P" and "param_random_state P \<le> 4294967295"
  shows "\<exists>s. Configure P = Inr s"
proof (cases "Configure P")
  case (Inl e)
  then show ?thesis
    using assms
    by (auto simp: Configure_def Let_def split: option.splits if_splits dest!: find_Some_mem)
next
  case (Inr s)
  then show ?thesis by blast
qed

lemma Configure_fails:
  assumes "(\<exists>f\<in>set (param_flavors P). lower f \<notin> {''nue'', ''numu'', ''nutau''}) \<or>
           (\<exists>i\<in>set (param_interaction_types P). lower i \<notin> {''cc'', ''nc''})"
  shows "\<exists>msg. Configure P = Inl (ValueError msg)"
proof (cases "Configure P")
  case (Inl e)
  then show ?thesis
    using Configure_Inl by blast
next
  case (Inr s)
  from Configure_Inr(1,2,8,9) [OF Inr]
  have "lower ` set (param_flavors P) \<subseteq> {''nue'', ''numu'', ''nutau''}"
    and "lower ` set (param_interaction_types P) \<subseteq> {''cc'', ''nc''}"
    by simp_all
  with assms show ?thesis by blast
qed

subsection \<open>One call of DAQ\<close>

lemma DAQ_Inr_D:
  assumes "DAQ G U s rs fr = Inr (fr', s', rs', b)"
  obtains smp rs1 pe de flv it pr da ha where
    "DAQ_sample G U s rs = (smp, rs1)"
    "DAQ_energies s (hadron_energy smp) (fraction smp) = Inr (pe, de)"
    "DAQ_flavor_interaction G s rs1 = Inr ((flv, it), rs')"
    "DAQ_particles U smp pe de flv it = Inr (pr, da, ha)"
    "fr' = fr(''I3MCTree_preMuonProp'' \<mapsto> [(pr, None), (da, Some pr), (ha, Some pr)])"
    "s' = s\<lparr>events_done := events_done s + 1\<rparr>"
    "b = (num_events s \<le> events_done s + 1)"
  using assms
  by (auto simp: DAQ_def Let_def add_primary_def append_child_def split: prod.splits sum.splits)

lemma DAQ_sample_calls:
  "DAQ_sample G U s rs = (smp, rs') \<Longrightarrow>
   calls rs' = calls rs @ [Uniform (fst (x_range s)) (snd (x_range s)),
     Uniform (fst (y_range s)) (snd (y_range s)),
     Uniform (fst (z_range s)) (snd (z_range s)),
     Uniform (fst (time_range s)) (snd (time_range s)),
     Uniform (fst (azimuth_range s)) (snd (azimuth_range s)),
     Uniform (fst (zenith_range s)) (snd (zenith_range s)),
     Uniform (fst (hadron_energy_range s)) (snd (hadron_energy_range s)),
     Uniform (fst (fractional_energy_in_hadrons_range s)) (snd (fractional_energy_in_hadrons_range s))]"
  by (auto simp: DAQ_sample_def uniform_def Let_def split: prod.splits)

lemma DAQ_flavor_interaction_calls:
  "DAQ_flavor_interaction G s rs = Inr (sel, rs') \<Longrightarrow>
   calls rs' = calls rs @ [Integer (num_flavors s), Integer (num_interaction_types s)]"
  by (auto simp: DAQ_flavor_interaction_def integer_def split: prod.splits if_splits)

lemma DAQ_flavor_interaction_mem:
  "DAQ_flavor_interaction G s rs = Inr ((flv, it), rs') \<Longrightarrow>
   flv \<in> set (flavors s) \<and> it \<in> set (interaction_types s)"
  by (auto simp: DAQ_flavor_interaction_def split: prod.splits if_splits)

lemma particle_types_known:
  "flv \<in> {''nue'', ''numu'', ''nutau''} \<Longrightarrow> \<exists>pt dt. particle_types flv it = Inr (pt, dt)"
  by (auto simp: particle_types_def)

lemma particle_types_AttributeError:
  "particle_types flv it = Inl e \<Longrightarrow> e = AttributeError \<and> flv \<notin> {''nue'', ''numu'', ''nutau''}"
  by (auto simp: particle_types_def split: if_splits)

lemma DAQ_particles_Inl:
  "DAQ_particles U smp pe de flv it = Inl e \<Longrightarrow> particle_types flv it = Inl e"
  by (auto simp: DAQ_particles_def Let_def split: sum.splits prod.splits)

lemma ddiv_Inl_iff: "ddiv x y = Inl e \<longleftrightarrow> e = ZeroDivisionError \<and> y = Finite 0"
  by (cases x; cases y) auto

lemma DAQ_energies_Inl_iff:
  "DAQ_energies s h f = Inl e \<longleftrightarrow>
     e = ZeroDivisionError \<and> dadd (Finite (eps s)) (Finite f) = Finite 0"
  by (auto simp: DAQ_energies_def Let_def ddiv_Inl_iff split: sum.splits)

lemma DAQ_energies_Inl: "DAQ_energies s h f = Inl e \<Longrightarrow> e = ZeroDivisionError"
  by (simp add: DAQ_energies_Inl_iff)

lemma DAQ_energies_Inr:
  assumes "DAQ_energies s h f = Inr (pe, de)"
  shows "dadd (Finite (eps s)) (Finite f) \<noteq> Finite 0"
    and "ddiv (Finite h) (dadd (Finite (eps s)) (Finite f)) = Inr pe"
    and "de = dsub pe (Finite h)"
  using assms
  by (auto simp: DAQ_energies_def Let_def ddiv_Inl_iff split: sum.splits)

lemma DAQ_energies_Inr_I:
  assumes "dadd (Finite (eps s)) (Finite f) \<noteq> Finite 0"
  shows "\<exists>pe. DAQ_energies s h f = Inr (pe, dsub pe (Finite h))"
proof (cases "DAQ_energies s h f")
  case (Inl e)
  with assms show ?thesis by (simp add: DAQ_energies_Inl_iff)
next
  case (Inr r)
  obtain pe de where "r = (pe, de)" by (cases r)
  with Inr DAQ_energies_Inr(3) [of s h f pe de] show ?thesis by simp
qed

lemma DAQ_flavor_interaction_Inl: "DAQ_flavor_interaction G s rs = Inl e \<Longrightarrow> e = IndexError"
  by (auto simp: DAQ_flavor_interaction_def split: if_splits prod.splits)

lemma DAQ_Inl_D:
  assumes "DAQ G U s rs fr = Inl e"
  shows "e = ZeroDivisionError \<or> e = IndexError \<or>
    (e = AttributeError \<and> (\<exists>flv \<in> set (flavors s). flv \<notin> {''nue'', ''numu'', ''nutau''}))"
  using assms
  apply (simp add: DAQ_def split: prod.splits sum.splits)
    apply (drule DAQ_energies_Inl, simp)
   apply (drule DAQ_flavor_interaction_Inl, simp)
  apply (drule DAQ_particles_Inl)
  apply (drule DAQ_flavor_interaction_mem)
  apply (drule particle_types_AttributeError)
  apply blast
  done

subsection \<open>Claims about the configuration\<close>

text \<open>
  C7. When the configured flavors contain an entry that, made lowercase, is none of
  \<^verbatim>\<open>nue\<close>, \<^verbatim>\<open>numu\<close>, \<^verbatim>\<open>nutau\<close>, or the configured interaction types one
  that is neither \<^verbatim>\<open>cc\<close> nor \<^verbatim>\<open>nc\<close>, \<^verbatim>\<open>Configure\<close> raises (a ValueError, the
  configuration error of the module), and the run ends with that error and no frame.
  \<^verbatim>\<open>Configure\<close> has no access to the random service, so nothing is drawn.
\<close>

theorem unrecognized_configuration_fails:
  assumes "(\<exists>f\<in>set (param_flavors P). lower f \<notin> {''nue'', ''numu'', ''nutau''}) \<or>
           (\<exists>i\<in>set (param_interaction_types P). lower i \<notin> {''cc'', ''nc''})"
  shows "\<exists>msg. Configure P = Inl (ValueError msg) \<and>
           cascade_main G U P rs = ([], Inl (ValueError msg))"
proof -
  from Configure_fails [OF assms] obtain msg where "Configure P = Inl (ValueError msg)"
    by blast
  then show ?thesis
    by (simp add: cascade_main_def)
qed

theorem unrecognized_configuration_fails_witness:
  "(\<exists>msg. Configure (defaults\<lparr>param_flavors := [''nux'']\<rparr>) = Inl (ValueError msg) \<and>
      cascade_main lowest icetray (defaults\<lparr>param_flavors := [''nux'']\<rparr>) fresh =
        ([], Inl (ValueError msg))) \<and>
   (\<exists>msg. Configure (defaults\<lparr>param_interaction_types := [''xc'']\<rparr>) = Inl (ValueError msg) \<and>
      cascade_main lowest icetray (defaults\<lparr>param_interaction_types := [''xc'']\<rparr>) fresh =
        ([], Inl (ValueError msg)))"
proof
  have "lower ''nux'' \<notin> {''nue'', ''numu'', ''nutau''}"
    by (simp add: lower_def lower_char_def)
  then show "\<exists>msg. Configure (defaults\<lparr>param_flavors := [''nux'']\<rparr>) = Inl (ValueError msg) \<and>
      cascade_main lowest icetray (defaults\<lparr>param_flavors := [''nux'']\<rparr>) fresh =
        ([], Inl (ValueError msg))"
    using unrecognized_configuration_fails [of "defaults\<lparr>param_flavors := [''nux'']\<rparr>" lowest icetray fresh]
    by simp
next
  have "lower ''xc'' \<notin> {''cc'', ''nc''}"
    by (simp add: lower_def lower_char_def)
  then show "\<exists>msg. Configure (defaults\<lparr>param_interaction_types := [''xc'']\<rparr>) = Inl (ValueError msg) \<and>
      cascade_main lowest icetray (defaults\<lparr>param_interaction_types := [''xc'']\<rparr>) fresh =
        ([], Inl (ValueError msg))"
    using unrecognized_configuration_fails [of "defaults\<lparr>param_interaction_types := [''xc'']\<rparr>" lowest icetray fresh]
    by simp
qed

lemma Execute_Inl: "DAQ G U s rs Map.empty = Inl e \<Longrightarrow> Execute G U s rs = ([], Inl e)"
  by (subst Execute.simps) simp

lemma Execute_stop:
  "DAQ G U s rs Map.empty = Inr (fr, s', rs', True) \<Longrightarrow> Execute G U s rs = ([fr], Inr (s', rs'))"
  by (subst Execute.simps) simp

lemma Execute_step:
  "DAQ G U s rs Map.empty = Inr (fr, s', rs', False) \<Longrightarrow>
   Execute G U s rs = (fr # fst (Execute G U s' rs'), snd (Execute G U s' rs'))"
  by (subst Execute.simps) (simp split: prod.splits)

lemma DAQ_Inr_state:
  "DAQ G U s rs fr = Inr (fr', s', rs', b) \<Longrightarrow>
   s' = s\<lparr>events_done := events_done s + 1\<rparr> \<and> b = (num_events s \<le> events_done s + 1)"
  by (auto simp: DAQ_def Let_def split: prod.splits sum.splits)

lemma Execute_Inl_D:
  "snd (Execute G U s rs) = Inl e \<Longrightarrow>
     e = ZeroDivisionError \<or> e = IndexError \<or>
     (e = AttributeError \<and> (\<exists>flv \<in> set (flavors s). flv \<notin> {''nue'', ''numu'', ''nutau''}))"
proof (induction G U s rs rule: Execute.induct)
  case (1 G U self rs)
  show ?case
  proof (cases "DAQ G U self rs Map.empty")
    case (Inl e1)
    from Execute_Inl [OF Inl] "1.prems" have "e = e1" by simp
    with DAQ_Inl_D [OF Inl] show ?thesis by simp
  next
    case (Inr out)
    obtain fr s' rs' b where o: "out = (fr, s', rs', b)"
      by (cases out) auto
    show ?thesis
    proof (cases b)
      case True
      from Inr o True have "DAQ G U self rs Map.empty = Inr (fr, s', rs', True)" by simp
      from Execute_stop [OF this] "1.prems" show ?thesis by simp
    next
      case False
      from Inr o False have d: "DAQ G U self rs Map.empty = Inr (fr, s', rs', False)" by simp
      from DAQ_Inr_state [OF d] have s': "s' = self\<lparr>events_done := events_done self + 1\<rparr>"
        by simp
      from Execute_step [OF d] "1.prems" have r: "snd (Execute G U s' rs') = Inl e"
        by simp
      have "e = ZeroDivisionError \<or> e = IndexError \<or>
        (e = AttributeError \<and> (\<exists>flv \<in> set (flavors s'). flv \<notin> {''nue'', ''numu'', ''nutau''}))"
        using "1.IH" [of "(fr, s', rs', False)" fr "(s', rs', False)" s' "(rs', False)" rs' False] d r
        by simp
      with s' show ?thesis by simp
    qed
  qed
qed

lemma Configure_defaults: "\<exists>s. Configure defaults = Inr s"
  by (simp add: Configure_def defaults_def lower_def lower_char_def Let_def)

subsection \<open>Claims about the flavor dispatch\<close>

text \<open>
  C10. After a \<^verbatim>\<open>Configure\<close> that raised nothing, the last \<^verbatim>\<open>else\<close> of the
  dispatch on the flavor is never taken, whatever the counter, the random service and the
  frame: no call of \<^verbatim>\<open>DAQ\<close> and no run ends with the error of that branch, and
  every flavor and interaction type that the two indices select is one of the six known
  cases, for which both particle types are set.
\<close>

theorem else_branch_unreachable:
  assumes "Configure P = Inr s"
  shows "DAQ G U (s\<lparr>events_done := k\<rparr>) rs frame \<noteq> Inl AttributeError \<and>
         snd (cascade_main G U P rs) \<noteq> Inl AttributeError \<and>
         (\<forall>flv it rs'. DAQ_flavor_interaction G (s\<lparr>events_done := k\<rparr>) rs = Inr ((flv, it), rs') \<longrightarrow>
            flv \<in> {''nue'', ''numu'', ''nutau''} \<and> it \<in> {''cc'', ''nc''} \<and>
            (\<exists>pt dt. particle_types flv it = Inr (pt, dt) \<and> dt \<noteq> unknown))"
proof -
  from Configure_Inr(8,9) [OF assms]
  have flv: "set (flavors s) \<subseteq> {''nue'', ''numu'', ''nutau''}"
    and it: "set (interaction_types s) \<subseteq> {''cc'', ''nc''}" by simp_all
  have a: "DAQ G U (s\<lparr>events_done := k\<rparr>) rs frame \<noteq> Inl AttributeError"
  proof
    assume "DAQ G U (s\<lparr>events_done := k\<rparr>) rs frame = Inl AttributeError"
    from DAQ_Inl_D [OF this] flv show False by auto
  qed
  have b: "snd (cascade_main G U P rs) \<noteq> Inl AttributeError"
  proof
    assume "snd (cascade_main G U P rs) = Inl AttributeError"
    with assms have "snd (Execute G U s rs) = Inl AttributeError"
      by (simp add: cascade_main_def)
    from Execute_Inl_D [OF this] flv show False by auto
  qed
  have c: "flv' \<in> {''nue'', ''numu'', ''nutau''} \<and> it' \<in> {''cc'', ''nc''} \<and>
            (\<exists>pt dt. particle_types flv' it' = Inr (pt, dt) \<and> dt \<noteq> unknown)"
    if "DAQ_flavor_interaction G (s\<lparr>events_done := k\<rparr>) rs = Inr ((flv', it'), rs')"
    for flv' it' rs'
  proof -
    from DAQ_flavor_interaction_mem [OF that] flv it
    have "flv' \<in> {''nue'', ''numu'', ''nutau''}" "it' \<in> {''cc'', ''nc''}" by auto
    then show ?thesis by (auto simp: particle_types_def)
  qed
  from a b c show ?thesis by simp
qed

theorem else_branch_unreachable_witness:
  "\<exists>s. Configure defaults = Inr s \<and>
     DAQ lowest icetray (s\<lparr>events_done := 0\<rparr>) fresh Map.empty \<noteq> Inl AttributeError \<and>
     snd (cascade_main lowest icetray defaults fresh) \<noteq> Inl AttributeError"
proof -
  obtain s where s: "Configure defaults = Inr s"
    using Configure_defaults by (elim exE)
  from else_branch_unreachable [OF s, of lowest icetray 0 fresh Map.empty] s
  show ?thesis by simp
qed

subsection \<open>Claims about empty lists\<close>

lemma DAQ_flavor_interaction_empty:
  assumes "flavors s = [] \<or> interaction_types s = []"
  shows "DAQ_flavor_interaction G s rs = Inl IndexError"
  using assms by (auto simp: DAQ_flavor_interaction_def split: prod.splits)

lemma DAQ_empty_list:
  assumes "flavors s = [] \<or> interaction_types s = []"
    and "DAQ_sample G U s rs = (smp, rs1)"
  shows "DAQ G U s rs frame =
    Inl (if dadd (Finite (eps s)) (Finite (fraction smp)) = Finite 0
         then ZeroDivisionError else IndexError)"
proof (cases "dadd (Finite (eps s)) (Finite (fraction smp)) = Finite 0")
  case True
  then have "DAQ_energies s (hadron_energy smp) (fraction smp) = Inl ZeroDivisionError"
    by (simp add: DAQ_energies_Inl_iff)
  with assms(2) True show ?thesis by (simp add: DAQ_def)
next
  case False
  from DAQ_energies_Inr_I [OF False, of "hadron_energy smp"] obtain pe where
    "DAQ_energies s (hadron_energy smp) (fraction smp) =
       Inr (pe, dsub pe (Finite (hadron_energy smp)))" by (elim exE)
  with assms(2) False DAQ_flavor_interaction_empty [OF assms(1), of G rs1]
  show ?thesis by (simp add: DAQ_def)
qed

lemma DAQ_sample_lowest:
  assumes "DAQ_sample lowest U s rs = (smp, rs1)"
  shows "hadron_energy smp = fst (hadron_energy_range s) * I3Units_GeV U"
    and "fraction smp = fst (fractional_energy_in_hadrons_range s)"
  using assms
  by (auto simp: DAQ_sample_def uniform_def lowest_def Let_def split: prod.splits)

lemma Configure_Inr_ranges:
  assumes "Configure P = Inr s"
  shows "hadron_energy_range s = param_hadron_energy_range P"
    and "fractional_energy_in_hadrons_range s = param_fractional_energy_in_hadrons_range P"
  using assms
  by (auto simp: Configure_def Let_def split: option.splits if_splits)

text \<open>
  C8, as the code has it. An empty list of flavors or of interaction types passes the
  sanity checks of \<^verbatim>\<open>Configure\<close>, whose loops then check nothing: with every entry
  recognised and a seed that numpy accepts, the configuration succeeds with the counter at
  0. The failure comes with the first call of \<^verbatim>\<open>DAQ\<close>, after its eight uniform draws:
  a ZeroDivisionError when the sum of \<open>\<epsilon>\<close> and the fraction drawn is zero, and otherwise
  the IndexError of the index into the empty list. The run ends with that error and no
  frame.
\<close>

theorem empty_category_list_fails_at_first_event:
  assumes "param_flavors P = [] \<or> param_interaction_types P = []"
    and "\<forall>f\<in>set (param_flavors P). lower f \<in> {''nue'', ''numu'', ''nutau''}"
    and "\<forall>i\<in>set (param_interaction_types P). lower i \<in> {''cc'', ''nc''}"
    and "0 \<le> param_random_state P" and "param_random_state P \<le> 4294967295"
  shows "\<exists>s smp rs1.
           Configure P = Inr s \<and> events_done s = 0 \<and>
           DAQ_sample G U s rs = (smp, rs1) \<and>
           DAQ_flavor_interaction G s rs1 = Inl IndexError \<and>
           DAQ G U s rs Map.empty =
             Inl (if dadd (Finite (eps s)) (Finite (fraction smp)) = Finite 0
                  then ZeroDivisionError else IndexError) \<and>
           cascade_main G U P rs =
             ([], Inl (if dadd (Finite (eps s)) (Finite (fraction smp)) = Finite 0
                       then ZeroDivisionError else IndexError))"
proof -
  from Configure_succeeds [OF assms(2-5)] obtain s where s: "Configure P = Inr s"
    by (elim exE)
  from Configure_Inr(1,2) [OF s] assms(1)
  have e: "flavors s = [] \<or> interaction_types s = []" by auto
  obtain smp rs1 where smp: "DAQ_sample G U s rs = (smp, rs1)"
    by (cases "DAQ_sample G U s rs")
  note d = DAQ_empty_list [OF e smp, of Map.empty]
  from s Execute_Inl [OF d]
  have "cascade_main G U P rs =
      ([], Inl (if dadd (Finite (eps s)) (Finite (fraction smp)) = Finite 0
                then ZeroDivisionError else IndexError))"
    by (simp add: cascade_main_def)
  with s smp d Configure_Inr(6) [OF s] DAQ_flavor_interaction_empty [OF e, of G rs1]
  show ?thesis
    by (intro exI [of _ s] exI [of _ smp] exI [of _ rs1] conjI)
qed

theorem empty_category_list_fails_at_first_event_witness:
  "(\<exists>s. Configure (defaults\<lparr>param_flavors := []\<rparr>) = Inr s \<and> events_done s = 0 \<and>
        DAQ lowest icetray s fresh Map.empty = Inl IndexError) \<and>
   cascade_main lowest icetray (defaults\<lparr>param_flavors := []\<rparr>) fresh = ([], Inl IndexError) \<and>
   cascade_main lowest icetray
     (defaults\<lparr>param_flavors := [],
        param_fractional_energy_in_hadrons_range := (- fl (1 / 1000000), 0)\<rparr>) fresh
     = ([], Inl ZeroDivisionError)"
proof -
  let ?P = "defaults\<lparr>param_flavors := []\<rparr>"
  let ?Q = "defaults\<lparr>param_flavors := [],
        param_fractional_energy_in_hadrons_range := (- fl (1 / 1000000), 0)\<rparr>"
  have i: "\<forall>i\<in>set (param_interaction_types ?P). lower i \<in> {''cc'', ''nc''}"
    "\<forall>i\<in>set (param_interaction_types ?Q). lower i \<in> {''cc'', ''nc''}"
    by (simp_all add: defaults_def lower_def lower_char_def)
  have sd: "0 \<le> param_random_state ?P" "param_random_state ?P \<le> 4294967295"
    "0 \<le> param_random_state ?Q" "param_random_state ?Q \<le> 4294967295"
    by (simp_all add: defaults_def)
  from empty_category_list_fails_at_first_event [of ?P lowest icetray fresh, OF _ _ i(1) sd(1,2)]
  obtain s smp rs1 where s: "Configure ?P = Inr s" and c: "events_done s = 0"
    and smp: "DAQ_sample lowest icetray s fresh = (smp, rs1)"
    and d: "DAQ lowest icetray s fresh Map.empty =
             Inl (if dadd (Finite (eps s)) (Finite (fraction smp)) = Finite 0
                  then ZeroDivisionError else IndexError)"
    and m: "cascade_main lowest icetray ?P fresh =
             ([], Inl (if dadd (Finite (eps s)) (Finite (fraction smp)) = Finite 0
                       then ZeroDivisionError else IndexError))"
    by auto
  from DAQ_sample_lowest(2) [OF smp] Configure_Inr_ranges(2) [OF s] Configure_Inr(5) [OF s]
  have "fraction smp = 0" and "eps s = fl (1 / 1000000)"
    by (simp_all add: defaults_def)
  then have "dadd (Finite (eps s)) (Finite (fraction smp)) \<noteq> Finite 0"
    by (simp only: dadd_eps_zero) simp
  with d m have d': "DAQ lowest icetray s fresh Map.empty = Inl IndexError"
    and m': "cascade_main lowest icetray ?P fresh = ([], Inl IndexError)" by simp_all
  from empty_category_list_fails_at_first_event [of ?Q lowest icetray fresh, OF _ _ i(2) sd(3,4)]
  obtain t smq rq where t: "Configure ?Q = Inr t"
    and smq: "DAQ_sample lowest icetray t fresh = (smq, rq)"
    and n: "cascade_main lowest icetray ?Q fresh =
             ([], Inl (if dadd (Finite (eps t)) (Finite (fraction smq)) = Finite 0
                       then ZeroDivisionError else IndexError))"
    by auto
  from DAQ_sample_lowest(2) [OF smq] Configure_Inr_ranges(2) [OF t] Configure_Inr(5) [OF t]
  have "dadd (Finite (eps t)) (Finite (fraction smq)) = Finite 0"
    by (simp add: round_double_def fl_zero)
  with n have n': "cascade_main lowest icetray ?Q fresh = ([], Inl ZeroDivisionError)" by simp
  from s c d' m' n' show ?thesis by (intro conjI exI [of _ s])
qed

text \<open>
  The configuration with the default parameters and no flavor raises nothing; the run
  then ends at its first event with an IndexError.
\<close>

theorem empty_flavors_configure_succeeds:
  "(\<exists>s. Configure (defaults\<lparr>param_flavors := []\<rparr>) = Inr s) \<and>
   cascade_main lowest icetray (defaults\<lparr>param_flavors := []\<rparr>) fresh = ([], Inl IndexError)"
proof -
  let ?P = "defaults\<lparr>param_flavors := []\<rparr>"
  obtain s where s: "Configure ?P = Inr s"
    by (simp add: Configure_def defaults_def lower_def lower_char_def Let_def)
  from Configure_Inr(1) [OF s] have e: "flavors s = [] \<or> interaction_types s = []" by simp
  obtain smp rs1 where smp: "DAQ_sample lowest icetray s fresh = (smp, rs1)"
    by (cases "DAQ_sample lowest icetray s fresh")
  from DAQ_sample_lowest(2) [OF smp] Configure_Inr_ranges(2) [OF s] Configure_Inr(5) [OF s]
  have "fraction smp = 0" and "eps s = fl (1 / 1000000)"
    by (simp_all add: defaults_def)
  then have "dadd (Finite (eps s)) (Finite (fraction smp)) \<noteq> Finite 0"
    by (simp only: dadd_eps_zero) simp
  with DAQ_empty_list [OF e smp, of Map.empty]
  have "DAQ lowest icetray s fresh Map.empty = Inl IndexError" by simp
  from Execute_Inl [OF this] s show ?thesis
    by (simp add: cascade_main_def)
qed

subsection \<open>The particles of an event\<close>

lemma DAQ_particles_Inr:
  assumes "DAQ_particles U smp pe de flv it = Inr (pr, da, ha)"
  shows "particle_types flv it = Inr (p_type pr, p_type da)"
    and "p_shape da = daughter_shape flv it"
    and "p_energy pr = dmul pe (Finite (I3Units_GeV U))"
    and "p_energy da = dmul de (Finite (I3Units_GeV U))"
    and "p_energy ha = dmul (Finite (hadron_energy smp)) (Finite (I3Units_GeV U))"
    and "p_type ha = Hadrons" and "p_shape ha = Cascade"
    and "p_pos da = p_pos pr" and "p_pos ha = p_pos pr" and "p_pos pr = vertex smp"
    and "p_time da = p_time pr" and "p_time ha = p_time pr"
    and "p_dir da = p_dir pr" and "p_dir ha = p_dir pr"
    and "p_time pr = vertex_time smp * I3Units_ns U"
    and "p_dir pr = \<lparr>dir_zenith = zenith smp, dir_azimuth = azimuth smp\<rparr>"
  using assms
  by (auto simp: DAQ_particles_def Let_def split: sum.splits prod.splits)

lemma DAQ_particles_known:
  assumes "flv \<in> {''nue'', ''numu'', ''nutau''}"
  shows "\<exists>pr da ha. DAQ_particles U smp pe de flv it = Inr (pr, da, ha)"
proof -
  from particle_types_known [OF assms, of it] obtain pt dt where
    "particle_types flv it = Inr (pt, dt)" by (elim exE)
  then show ?thesis by (simp add: DAQ_particles_def Let_def)
qed

lemma DAQ_Inr_I:
  assumes "DAQ_sample G U s rs = (smp, rs1)"
    and "dadd (Finite (eps s)) (Finite (fraction smp)) \<noteq> Finite 0"
    and "DAQ_flavor_interaction G s rs1 = Inr ((flv, it), rs2)"
    and "flv \<in> {''nue'', ''numu'', ''nutau''}"
  shows "\<exists>fr. DAQ G U s rs frame =
           Inr (fr, s\<lparr>events_done := events_done s + 1\<rparr>, rs2,
                num_events s \<le> events_done s + 1)"
proof -
  from DAQ_energies_Inr_I [OF assms(2), of "hadron_energy smp"] obtain pe where
    e: "DAQ_energies s (hadron_energy smp) (fraction smp) =
          Inr (pe, dsub pe (Finite (hadron_energy smp)))" by (elim exE)
  from DAQ_particles_known [OF assms(4), of U smp pe "dsub pe (Finite (hadron_energy smp))" it]
  obtain pr da ha where
    p: "DAQ_particles U smp pe (dsub pe (Finite (hadron_energy smp))) flv it = Inr (pr, da, ha)"
    by (elim exE)
  from assms(1,3) e p show ?thesis by (simp add: DAQ_def Let_def)
qed

lemma DAQ_flavor_interaction_lowest:
  "flavors s = f # fs \<Longrightarrow> interaction_types s = i # is \<Longrightarrow>
   \<exists>rs2. DAQ_flavor_interaction lowest s rs = Inr ((f, i), rs2)"
  by (simp add: DAQ_flavor_interaction_def integer_def lowest_def)

lemma DAQ_lowest_Inr_I:
  assumes "flavors s = f # fs" and "interaction_types s = i # is"
    and "f \<in> {''nue'', ''numu'', ''nutau''}"
    and "eps s = fl (1 / 1000000)"
    and "fst (fractional_energy_in_hadrons_range s) = 0"
  shows "\<exists>fr rs2. DAQ lowest U s rs frame =
           Inr (fr, s\<lparr>events_done := events_done s + 1\<rparr>, rs2,
                num_events s \<le> events_done s + 1)"
proof -
  obtain smp rs1 where smp: "DAQ_sample lowest U s rs = (smp, rs1)"
    by (cases "DAQ_sample lowest U s rs")
  from DAQ_sample_lowest(2) [OF smp] assms(5) have "fraction smp = 0" by simp
  with assms(4) have n: "dadd (Finite (eps s)) (Finite (fraction smp)) \<noteq> Finite 0"
    by (simp only: dadd_eps_zero) simp
  from DAQ_flavor_interaction_lowest [OF assms(1,2), of rs1] obtain rs2 where
    sel: "DAQ_flavor_interaction lowest s rs1 = Inr ((f, i), rs2)" by (elim exE)
  from DAQ_Inr_I [OF smp n sel assms(3), of frame] show ?thesis
    by (elim exE) (intro exI)
qed

lemma Configure_NuMu:
  assumes "Configure (defaults\<lparr>param_flavors := [''NuMu'']\<rparr>) = Inr s"
  shows "flavors s = [''numu''] \<and> interaction_types s = [''cc'', ''nc''] \<and>
   (\<exists>out. DAQ lowest icetray s fresh Map.empty = Inr out)"
proof -
  from Configure_Inr(1,2) [OF assms]
  have f: "flavors s = [''numu'']" and i: "interaction_types s = [''cc'', ''nc'']"
    by (simp_all add: defaults_def lower_def lower_char_def)
  from Configure_Inr_ranges(2) [OF assms]
  have r: "fst (fractional_energy_in_hadrons_range s) = 0" by (simp add: defaults_def)
  from DAQ_lowest_Inr_I [OF f i _ Configure_Inr(5) [OF assms] r, of icetray fresh Map.empty]
  obtain fr rs2 where "DAQ lowest icetray s fresh Map.empty =
      Inr (fr, s\<lparr>events_done := events_done s + 1\<rparr>, rs2, num_events s \<le> events_done s + 1)"
    by auto
  with f i show ?thesis by simp
qed

lemma decision_table_cases:
  "particle_types ''nue'' ''cc'' = Inr (NuE, EMinus)"
  "particle_types ''nue'' ''nc'' = Inr (NuE, NuE)"
  "particle_types ''numu'' ''cc'' = Inr (NuMu, MuMinus)"
  "particle_types ''numu'' ''nc'' = Inr (NuMu, NuMu)"
  "particle_types ''nutau'' ''cc'' = Inr (NuTau, TauMinus)"
  "particle_types ''nutau'' ''nc'' = Inr (NuTau, NuTau)"
  "daughter_shape ''numu'' ''cc'' = InfiniteTrack"
  "daughter_shape ''numu'' ''nc'' = Cascade"
  "daughter_shape ''nue'' ''cc'' = Cascade"
  "daughter_shape ''nue'' ''nc'' = Cascade"
  "daughter_shape ''nutau'' ''cc'' = Cascade"
  "daughter_shape ''nutau'' ''nc'' = Cascade"
  by (simp_all add: particle_types_def daughter_shape_def)

text \<open>
  C2. In an event built for a flavor among \<^verbatim>\<open>nue\<close>, \<^verbatim>\<open>numu\<close>, \<^verbatim>\<open>nutau\<close> and an
  interaction type among \<^verbatim>\<open>cc\<close>, \<^verbatim>\<open>nc\<close> (the two that the indices drawn select),
  the primary is the neutrino of the flavor; the daughter of a neutral-current event has
  the type of the primary, and the daughter of a charged-current event is the electron,
  the muon or the tau lepton of the flavor; the daughter is a track for \<^verbatim>\<open>numu\<close> with
  \<^verbatim>\<open>cc\<close> and a cascade in the five other cases.
\<close>

theorem decision_table:
  assumes "DAQ G U s rs frame = Inr (frame', s', rs', susp)"
    and "DAQ_sample G U s rs = (smp, rs1)"
    and "DAQ_flavor_interaction G s rs1 = Inr ((flavor, interaction_type), rs2)"
    and "flavor \<in> {''nue'', ''numu'', ''nutau''}"
    and "interaction_type \<in> {''cc'', ''nc''}"
  shows "\<exists>primary daughter hadrons.
     frame' ''I3MCTree_preMuonProp'' =
       Some [(primary, None), (daughter, Some primary), (hadrons, Some primary)] \<and>
     p_type primary =
       (if flavor = ''nue'' then NuE else if flavor = ''numu'' then NuMu else NuTau) \<and>
     p_type daughter =
       (if interaction_type = ''nc'' then p_type primary
        else if flavor = ''nue'' then EMinus
        else if flavor = ''numu'' then MuMinus else TauMinus) \<and>
     p_shape daughter =
       (if flavor = ''numu'' \<and> interaction_type = ''cc'' then InfiniteTrack else Cascade)"
proof -
  from assms(1) obtain smp' rs1' pe de flv it pr da ha where
    a: "DAQ_sample G U s rs = (smp', rs1')"
    and b: "DAQ_flavor_interaction G s rs1' = Inr ((flv, it), rs')"
    and c: "DAQ_particles U smp' pe de flv it = Inr (pr, da, ha)"
    and d: "frame' = frame(''I3MCTree_preMuonProp'' \<mapsto> [(pr, None), (da, Some pr), (ha, Some pr)])"
    by (rule DAQ_Inr_D)
  from a assms(2) have "rs1' = rs1" by simp
  with b assms(3) have flv: "flv = flavor" "it = interaction_type" by simp_all
  from DAQ_particles_Inr(1,2) [OF c] flv
  have t: "particle_types flavor interaction_type = Inr (p_type pr, p_type da)"
    and sh: "p_shape da = daughter_shape flavor interaction_type" by simp_all
  from t assms(4,5) have "p_type pr =
       (if flavor = ''nue'' then NuE else if flavor = ''numu'' then NuMu else NuTau) \<and>
     p_type da =
       (if interaction_type = ''nc'' then p_type pr
        else if flavor = ''nue'' then EMinus
        else if flavor = ''numu'' then MuMinus else TauMinus)"
    by (auto simp: particle_types_def)
  moreover from sh assms(4,5) have "p_shape da =
       (if flavor = ''numu'' \<and> interaction_type = ''cc'' then InfiniteTrack else Cascade)"
    by (auto simp: daughter_shape_def)
  ultimately show ?thesis using d by auto
qed

theorem decision_table_witness:
  "\<exists>s frame' s' rs' susp primary daughter hadrons.
     Configure (defaults\<lparr>param_flavors := [''NuMu'']\<rparr>) = Inr s \<and>
     DAQ lowest icetray s fresh Map.empty = Inr (frame', s', rs', susp) \<and>
     frame' ''I3MCTree_preMuonProp'' =
       Some [(primary, None), (daughter, Some primary), (hadrons, Some primary)] \<and>
     p_type primary = NuMu \<and> p_type daughter = MuMinus \<and> p_shape daughter = InfiniteTrack"
proof -
  obtain s where s: "Configure (defaults\<lparr>param_flavors := [''NuMu'']\<rparr>) = Inr s"
    by (simp add: Configure_def defaults_def lower_def lower_char_def Let_def)
  from Configure_NuMu [OF s] obtain out where
    flv: "flavors s = [''numu'']" and it: "interaction_types s = [''cc'', ''nc'']"
    and out: "DAQ lowest icetray s fresh Map.empty = Inr out" by (elim conjE exE)
  obtain frame' s' rs' susp where o: "out = (frame', s', rs', susp)" by (cases out) auto
  obtain smp rs1 where smp: "DAQ_sample lowest icetray s fresh = (smp, rs1)"
    by (cases "DAQ_sample lowest icetray s fresh")
  from DAQ_flavor_interaction_lowest [OF flv it, of rs1] obtain rs2 where
    sel: "DAQ_flavor_interaction lowest s rs1 = Inr ((''numu'', ''cc''), rs2)" by (elim exE)
  from out o have d: "DAQ lowest icetray s fresh Map.empty = Inr (frame', s', rs', susp)"
    by simp
  from decision_table [OF d smp sel] obtain primary daughter hadrons where
    "frame' ''I3MCTree_preMuonProp'' =
       Some [(primary, None), (daughter, Some primary), (hadrons, Some primary)]"
    "p_type primary = NuMu" "p_type daughter = MuMinus" "p_shape daughter = InfiniteTrack"
    by auto
  with s d show ?thesis by (intro exI conjI)
qed

subsection \<open>Claims about the energies of a cascade event\<close>

lemma round_double_nearest:
  assumes "2 powi e \<le> \<bar>x\<bar>" and "\<bar>x\<bar> < 2 powi (e + 1)" and "- 1022 \<le> e"
    and "\<bar>x - of_int n * 2 powi (e - 52)\<bar> < 2 powi (e - 53)"
    and "v = of_int n * 2 powi (e - 52)" and "\<bar>v\<bar> < 2 ^ 1024"
  shows "round_double x = Finite v"
proof -
  from fl_nearest [OF assms(1-4)] assms(5) have "fl x = v" by simp
  with assms(6) round_double_Finite [of x] show ?thesis by simp
qed

lemma DAQ_energy_fields:
  assumes "DAQ G U s rs frame = Inr (frame', s', rs', susp)"
    and "DAQ_sample G U s rs = (smp, rs1)"
  shows "\<exists>primary daughter hadrons pe de.
     frame' ''I3MCTree_preMuonProp'' =
       Some [(primary, None), (daughter, Some primary), (hadrons, Some primary)] \<and>
     DAQ_energies s (hadron_energy smp) (fraction smp) = Inr (pe, de) \<and>
     p_energy primary = dmul pe (Finite (I3Units_GeV U)) \<and>
     p_energy daughter = dmul de (Finite (I3Units_GeV U)) \<and>
     p_energy hadrons = dmul (Finite (hadron_energy smp)) (Finite (I3Units_GeV U))"
proof -
  from assms(1) obtain smp' rs1' pe de flv it pr da ha where
    a: "DAQ_sample G U s rs = (smp', rs1')"
    and b: "DAQ_energies s (hadron_energy smp') (fraction smp') = Inr (pe, de)"
    and c: "DAQ_particles U smp' pe de flv it = Inr (pr, da, ha)"
    and d: "frame' = frame(''I3MCTree_preMuonProp'' \<mapsto> [(pr, None), (da, Some pr), (ha, Some pr)])"
    by (rule DAQ_Inr_D)
  from a assms(2) have e: "smp' = smp" by simp
  from d have t: "frame' ''I3MCTree_preMuonProp'' = Some [(pr, None), (da, Some pr), (ha, Some pr)]"
    by simp
  from t b DAQ_particles_Inr(3,4,5) [OF c] show ?thesis
    unfolding e by (intro exI conjI)
qed

lemma dsub_error:
  assumes "dsub (Finite p) (Finite h) = Finite d"
  shows "\<bar>p - d - h\<bar> \<le> max (\<bar>p - h\<bar> / 2 ^ 53) (1 / 2 ^ 1075)"
proof -
  from assms have "round_double (p - h) = Finite d" by simp
  then have "d = fl (p - h)" by (rule round_double_Finite_D)
  then have "\<bar>p - d - h\<bar> = \<bar>(p - h) - fl (p - h)\<bar>" by simp
  also have "\<dots> = \<bar>fl (p - h) - (p - h)\<bar>" by (rule abs_minus_commute)
  also have "\<dots> \<le> max (\<bar>p - h\<bar> / 2 ^ 53) (1 / 2 ^ 1075)" by (rule fl_error)
  finally show ?thesis .
qed

text \<open>Three events computed by hand: the roundings of lines 139 and 140.\<close>

lemma quotient_10000:
  "round_double (10000 / (4722366482869645 / 4722366482869645213696)) = Finite 10000000000"
  by (rule round_double_nearest [where e = 33 and n = 5242880000000000])
    (simp_all add: power_int_def power_one_over)

lemma difference_10000: "round_double (10000000000 - 10000) = Finite 9999990000"
  by (rule round_double_nearest [where e = 33 and n = 5242874757120000])
    (simp_all add: power_int_def power_one_over)

lemma round_double_10000: "round_double 10000 = Finite 10000"
  by (rule round_double_nearest [where e = 13 and n = 5497558138880000])
    (simp_all add: power_int_def power_one_over)

lemma round_double_1e10: "round_double 10000000000 = Finite 10000000000"
  by (rule round_double_nearest [where e = 33 and n = 5242880000000000])
    (simp_all add: power_int_def power_one_over)

lemma round_double_9999990000: "round_double 9999990000 = Finite 9999990000"
  by (rule round_double_nearest [where e = 33 and n = 5242874757120000])
    (simp_all add: power_int_def power_one_over)

lemma DAQ_energies_10000:
  assumes "eps s = fl (1 / 1000000)"
  shows "DAQ_energies s 10000 0 = Inr (Finite 10000000000, Finite 9999990000)"
proof -
  have a: "dadd (Finite (eps s)) (Finite 0) =
      Finite (4722366482869645 / 4722366482869645213696)"
    using assms by (simp only: dadd_eps_zero)
  have b: "ddiv (Finite 10000) (Finite (4722366482869645 / 4722366482869645213696)) =
      Inr (round_double (10000 / (4722366482869645 / 4722366482869645213696)))" by simp
  have d: "dsub (Finite 10000000000) (Finite 10000) = round_double (10000000000 - 10000)"
    by simp
  show ?thesis
    unfolding DAQ_energies_def a b quotient_10000 sum.case Let_def d difference_10000
    by (rule refl)
qed

lemma quotient_12345:
  "round_double (848388532111147 / 68719476736 / (4722366482869645 / 4722366482869645213696))
     = Finite 12345678000"
  by (rule round_double_nearest [where e = 33 and n = 6472690827264000])
    (simp_all add: power_int_def power_one_over)

lemma difference_12345:
  "round_double (12345678000 - 848388532111147 / 68719476736)
     = Finite (6472684354573173 / 524288)"
  by (rule round_double_nearest [where e = 33 and n = 6472684354573173])
    (simp_all add: power_int_def power_one_over)

lemma back_12345:
  "round_double (12345678000 - 6472684354573173 / 524288) = Finite (6472690827 / 524288)"
  by (rule round_double_nearest [where e = 13 and n = 6787108256612352])
    (simp_all add: power_int_def power_one_over)

lemma round_double_12345:
  "round_double (848388532111147 / 68719476736) = Finite (848388532111147 / 68719476736)"
  by (rule round_double_nearest [where e = 13 and n = 6787108256889176])
    (simp_all add: power_int_def power_one_over)

lemma round_double_12345678000: "round_double 12345678000 = Finite 12345678000"
  by (rule round_double_nearest [where e = 33 and n = 6472690827264000])
    (simp_all add: power_int_def power_one_over)

lemma round_double_12345_daughter:
  "round_double (6472684354573173 / 524288) = Finite (6472684354573173 / 524288)"
  by (rule round_double_nearest [where e = 33 and n = 6472684354573173])
    (simp_all add: power_int_def power_one_over)

lemma DAQ_energies_12345:
  assumes "eps s = fl (1 / 1000000)"
  shows "DAQ_energies s (848388532111147 / 68719476736) 0 =
    Inr (Finite 12345678000, Finite (6472684354573173 / 524288))"
proof -
  have a: "dadd (Finite (eps s)) (Finite 0) =
      Finite (4722366482869645 / 4722366482869645213696)"
    using assms by (simp only: dadd_eps_zero)
  have b: "ddiv (Finite (848388532111147 / 68719476736))
        (Finite (4722366482869645 / 4722366482869645213696)) =
      Inr (round_double (848388532111147 / 68719476736 /
        (4722366482869645 / 4722366482869645213696)))" by simp
  have d: "dsub (Finite 12345678000) (Finite (848388532111147 / 68719476736)) =
      round_double (12345678000 - 848388532111147 / 68719476736)"
    by simp
  show ?thesis
    unfolding DAQ_energies_def a b quotient_12345 sum.case Let_def d difference_12345
    by (rule refl)
qed

lemma fl_minus_2e_6:
  "fl (- 2 / 1000000) = - 4722366482869645 / 2361183241434822606848"
proof -
  have "fl (- 2 / 1000000) = of_int (- 4722366482869645) * 2 powi (- 19 - 52)"
    by (rule fl_nearest) (simp_all add: power_int_def power_one_over)
  then show ?thesis by (simp add: power_int_def power_one_over)
qed

lemma sum_minus_2e_6:
  "round_double (4722366482869645 / 4722366482869645213696 +
      - 4722366482869645 / 2361183241434822606848)
     = Finite (- 4722366482869645 / 4722366482869645213696)"
  by (rule round_double_nearest [where e = "- 20" and n = "- 4722366482869645"])
    (simp_all add: power_int_def power_one_over)

lemma quotient_minus_2e_6:
  "round_double (10000 / (- 4722366482869645 / 4722366482869645213696))
     = Finite (- 10000000000)"
  by (rule round_double_nearest [where e = 33 and n = "- 5242880000000000"])
    (simp_all add: power_int_def power_one_over)

lemma difference_minus_2e_6:
  "round_double (- 10000000000 - 10000) = Finite (- 10000010000)"
  by (rule round_double_nearest [where e = 33 and n = "- 5242885242880000"])
    (simp_all add: power_int_def power_one_over)

lemma round_double_minus_10000010000:
  "round_double (- 10000010000) = Finite (- 10000010000)"
  by (rule round_double_nearest [where e = 33 and n = "- 5242885242880000"])
    (simp_all add: power_int_def power_one_over)

lemma DAQ_energies_minus_2e_6:
  assumes "eps s = fl (1 / 1000000)"
  shows "DAQ_energies s 10000 (- 4722366482869645 / 2361183241434822606848) =
    Inr (Finite (- 10000000000), Finite (- 10000010000))"
proof -
  have a: "dadd (Finite (eps s)) (Finite (- 4722366482869645 / 2361183241434822606848)) =
      round_double (4722366482869645 / 4722366482869645213696 +
        - 4722366482869645 / 2361183241434822606848)"
  proof -
    from assms have "eps s = 4722366482869645 / 4722366482869645213696"
      by (simp only: fl_1e_6)
    then show ?thesis by (simp only: dadd.simps)
  qed
  have b: "ddiv (Finite 10000) (Finite (- 4722366482869645 / 4722366482869645213696)) =
      Inr (round_double (10000 / (- 4722366482869645 / 4722366482869645213696)))" by simp
  have d: "dsub (Finite (- 10000000000)) (Finite 10000) = round_double (- 10000000000 - 10000)"
    by simp
  show ?thesis
    unfolding DAQ_energies_def a sum_minus_2e_6 b quotient_minus_2e_6 sum.case Let_def d
      difference_minus_2e_6
    by (rule refl)
qed

lemma Configure_default_lists:
  assumes "param_flavors P = param_flavors defaults"
    and "param_interaction_types P = param_interaction_types defaults"
    and "param_random_state P = param_random_state defaults"
  shows "\<exists>s. Configure P = Inr s \<and> flavors s = [''nue'', ''numu'', ''nutau''] \<and>
    interaction_types s = [''cc'', ''nc'']"
proof -
  have "\<forall>f\<in>set (param_flavors P). lower f \<in> {''nue'', ''numu'', ''nutau''}"
    and "\<forall>i\<in>set (param_interaction_types P). lower i \<in> {''cc'', ''nc''}"
    and "0 \<le> param_random_state P" and "param_random_state P \<le> 4294967295"
    unfolding assms by (simp_all add: defaults_def lower_def lower_char_def)
  from Configure_succeeds [OF this] obtain s where s: "Configure P = Inr s" by (elim exE)
  from Configure_Inr(1,2) [OF s]
  have "flavors s = [''nue'', ''numu'', ''nutau'']" and "interaction_types s = [''cc'', ''nc'']"
    unfolding assms by (simp_all add: defaults_def lower_def lower_char_def)
  with s show ?thesis by (intro exI [of _ s] conjI)
qed

lemma DAQ_lowest_default_lists:
  assumes "Configure P = Inr s0"
    and "param_flavors P = param_flavors defaults"
    and "param_interaction_types P = param_interaction_types defaults"
    and "dadd (Finite (fl (1 / 1000000)))
           (Finite (fst (param_fractional_energy_in_hadrons_range P))) \<noteq> Finite 0"
  shows "\<exists>fr rs2. DAQ lowest U (s0\<lparr>events_done := k\<rparr>) rs frame =
           Inr (fr, s0\<lparr>events_done := k + 1\<rparr>, rs2, num_events s0 \<le> k + 1)"
proof -
  let ?s = "s0\<lparr>events_done := k\<rparr>"
  from Configure_Inr(1,2) [OF assms(1)]
  have f: "flavors ?s = ''nue'' # [''numu'', ''nutau'']"
    and i: "interaction_types ?s = ''cc'' # [''nc'']"
    unfolding assms(2,3) by (simp_all add: defaults_def lower_def lower_char_def)
  obtain smp rs1 where smp: "DAQ_sample lowest U ?s rs = (smp, rs1)"
    by (cases "DAQ_sample lowest U ?s rs")
  from DAQ_sample_lowest(2) [OF smp] Configure_Inr_ranges(2) [OF assms(1)]
  have "fraction smp = fst (param_fractional_energy_in_hadrons_range P)" by simp
  moreover from Configure_Inr(5) [OF assms(1)] have "eps ?s = fl (1 / 1000000)" by simp
  ultimately have n: "dadd (Finite (eps ?s)) (Finite (fraction smp)) \<noteq> Finite 0"
    using assms(4) by (simp del: dadd.simps)
  from DAQ_flavor_interaction_lowest [OF f i, of rs1] obtain rs2 where
    sel: "DAQ_flavor_interaction lowest ?s rs1 = Inr ((''nue'', ''cc''), rs2)" by (elim exE)
  from DAQ_Inr_I [OF smp n sel, of frame] obtain fr where
    "DAQ lowest U ?s rs frame =
       Inr (fr, ?s\<lparr>events_done := events_done ?s + 1\<rparr>, rs2,
            num_events ?s \<le> events_done ?s + 1)" by auto
  then have "DAQ lowest U ?s rs frame =
       Inr (fr, s0\<lparr>events_done := k + 1\<rparr>, rs2, num_events s0 \<le> k + 1)" by simp
  then show ?thesis by (intro exI)
qed

lemma Configure_counter_0:
  assumes "Configure P = Inr s"
  shows "s\<lparr>events_done := 0\<rparr> = s"
  using Configure_Inr(6) [OF assms] by simp

lemma GeV_icetray: "I3Units_GeV icetray = 1"
  by (simp add: icetray_def)

text \<open>
  C3, as the code has it. In every cascade event, with \<open>h\<close> the hadron energy sampled (the
  seventh draw, in GeV) and \<open>f\<close> the fraction sampled (the eighth draw), the module
  computes in binary64 the primary energy \<open>h / (\<epsilon> + f)\<close>, with \<open>\<epsilon>\<close> the double nearest to
  \<open>10\<^sup>-\<^sup>6\<close> and both the sum and the quotient rounded, and the daughter energy as the
  rounded difference of the primary energy and \<open>h\<close>; each of the three energies stored is
  multiplied by the GeV unit once more. The primary energy minus the daughter energy is
  \<open>h\<close> up to the rounding of that difference only: when both energies are finite, they
  miss \<open>h\<close> by at most \<open>|primary_energy - h| / 2\<^sup>5\<^sup>3\<close> (or \<open>2\<^sup>-\<^sup>1\<^sup>0\<^sup>7\<^sup>5\<close> when that is
  larger).
\<close>

theorem energy_partition_rounded:
  assumes "Configure P = Inr s0"
    and "DAQ G U (s0\<lparr>events_done := k\<rparr>) rs frame = Inr (frame', s', rs', susp)"
    and "DAQ_sample G U (s0\<lparr>events_done := k\<rparr>) rs = (smp, rs1)"
  shows "\<exists>primary daughter hadrons primary_energy daughter_energy.
     frame' ''I3MCTree_preMuonProp'' =
       Some [(primary, None), (daughter, Some primary), (hadrons, Some primary)] \<and>
     ddiv (Finite (hadron_energy smp))
       (dadd (Finite (fl (1 / 1000000))) (Finite (fraction smp))) = Inr primary_energy \<and>
     daughter_energy = dsub primary_energy (Finite (hadron_energy smp)) \<and>
     p_energy primary = dmul primary_energy (Finite (I3Units_GeV U)) \<and>
     p_energy daughter = dmul daughter_energy (Finite (I3Units_GeV U)) \<and>
     p_energy hadrons = dmul (Finite (hadron_energy smp)) (Finite (I3Units_GeV U)) \<and>
     (\<forall>p d. primary_energy = Finite p \<longrightarrow> daughter_energy = Finite d \<longrightarrow>
        \<bar>p - d - hadron_energy smp\<bar>
          \<le> max (\<bar>p - hadron_energy smp\<bar> / 2 ^ 53) (1 / 2 ^ 1075))"
proof -
  let ?s = "s0\<lparr>events_done := k\<rparr>"
  from Configure_Inr(5) [OF assms(1)] have eps: "eps ?s = fl (1 / 1000000)" by simp
  from DAQ_energy_fields [OF assms(2,3)] obtain primary daughter hadrons pe de where
    t: "frame' ''I3MCTree_preMuonProp'' =
       Some [(primary, None), (daughter, Some primary), (hadrons, Some primary)]"
    and e: "DAQ_energies ?s (hadron_energy smp) (fraction smp) = Inr (pe, de)"
    and p: "p_energy primary = dmul pe (Finite (I3Units_GeV U))"
    and d: "p_energy daughter = dmul de (Finite (I3Units_GeV U))"
    and h: "p_energy hadrons = dmul (Finite (hadron_energy smp)) (Finite (I3Units_GeV U))"
    by (elim exE conjE)
  from DAQ_energies_Inr(2,3) [OF e]
  have q: "ddiv (Finite (hadron_energy smp))
       (dadd (Finite (fl (1 / 1000000))) (Finite (fraction smp))) = Inr pe"
    and de: "de = dsub pe (Finite (hadron_energy smp))"
    unfolding eps by simp_all
  have b: "\<forall>p d. pe = Finite p \<longrightarrow> de = Finite d \<longrightarrow>
        \<bar>p - d - hadron_energy smp\<bar>
          \<le> max (\<bar>p - hadron_energy smp\<bar> / 2 ^ 53) (1 / 2 ^ 1075)"
  proof (intro allI impI)
    fix p d
    assume "pe = Finite p" and "de = Finite d"
    with de have "dsub (Finite p) (Finite (hadron_energy smp)) = Finite d" by simp
    then show "\<bar>p - d - hadron_energy smp\<bar>
          \<le> max (\<bar>p - hadron_energy smp\<bar> / 2 ^ 53) (1 / 2 ^ 1075)" by (rule dsub_error)
  qed
  from t q de p d h b show ?thesis
    by (intro exI [of _ primary] exI [of _ daughter] exI [of _ hadrons]
        exI [of _ pe] exI [of _ de] conjI)
qed

theorem energy_partition_rounded_witness:
  "\<exists>s0 frame' s' rs' susp smp rs1 primary daughter hadrons.
     Configure defaults = Inr s0 \<and>
     DAQ lowest icetray (s0\<lparr>events_done := 0\<rparr>) fresh Map.empty = Inr (frame', s', rs', susp) \<and>
     DAQ_sample lowest icetray (s0\<lparr>events_done := 0\<rparr>) fresh = (smp, rs1) \<and>
     hadron_energy smp = 10000 \<and> fraction smp = 0 \<and>
     frame' ''I3MCTree_preMuonProp'' =
       Some [(primary, None), (daughter, Some primary), (hadrons, Some primary)] \<and>
     p_energy primary = Finite 10000000000 \<and> p_energy daughter = Finite 9999990000 \<and>
     p_energy hadrons = Finite 10000 \<and>
     \<bar>10000000000 - 9999990000 - hadron_energy smp\<bar>
       \<le> max (\<bar>10000000000 - hadron_energy smp\<bar> / 2 ^ 53) (1 / 2 ^ 1075)"
proof -
  obtain s0 where s0: "Configure defaults = Inr s0"
    using Configure_defaults by (elim exE)
  let ?s = "s0\<lparr>events_done := 0\<rparr>"
  have "dadd (Finite (fl (1 / 1000000)))
      (Finite (fst (param_fractional_energy_in_hadrons_range defaults))) \<noteq> Finite 0"
    by (simp add: defaults_def dadd_eps_zero del: dadd.simps)
  from DAQ_lowest_default_lists [OF s0 refl refl this, of icetray 0 fresh Map.empty]
  obtain frame' s' rs' susp where
    d: "DAQ lowest icetray ?s fresh Map.empty = Inr (frame', s', rs', susp)"
    by (elim exE)
  obtain smp rs1 where smp: "DAQ_sample lowest icetray ?s fresh = (smp, rs1)"
    by (cases "DAQ_sample lowest icetray ?s fresh")
  from DAQ_sample_lowest [OF smp] Configure_Inr_ranges [OF s0]
  have v: "hadron_energy smp = 10000" "fraction smp = 0"
    by (simp_all add: defaults_def icetray_def)
  from energy_partition_rounded [OF s0 d smp]
  obtain primary daughter hadrons pe de where
    t: "frame' ''I3MCTree_preMuonProp'' =
       Some [(primary, None), (daughter, Some primary), (hadrons, Some primary)]"
    and q: "ddiv (Finite (hadron_energy smp))
       (dadd (Finite (fl (1 / 1000000))) (Finite (fraction smp))) = Inr pe"
    and de: "de = dsub pe (Finite (hadron_energy smp))"
    and p: "p_energy primary = dmul pe (Finite (I3Units_GeV icetray))"
    and da: "p_energy daughter = dmul de (Finite (I3Units_GeV icetray))"
    and h: "p_energy hadrons = dmul (Finite (hadron_energy smp)) (Finite (I3Units_GeV icetray))"
    and b: "\<forall>p d. pe = Finite p \<longrightarrow> de = Finite d \<longrightarrow>
        \<bar>p - d - hadron_energy smp\<bar>
          \<le> max (\<bar>p - hadron_energy smp\<bar> / 2 ^ 53) (1 / 2 ^ 1075)"
    by (elim exE conjE)
  from Configure_Inr(5) [OF s0] have eps: "eps s0 = fl (1 / 1000000)" .
  from DAQ_energies_10000 [OF eps]
  have "DAQ_energies s0 (hadron_energy smp) (fraction smp) =
      Inr (Finite 10000000000, Finite 9999990000)" unfolding v .
  note r = DAQ_energies_Inr(2,3) [OF this]
  from r(1) q have pe: "pe = Finite 10000000000"
    unfolding eps by (simp del: dadd.simps ddiv.simps)
  from r(2) de have de': "de = Finite 9999990000"
    unfolding pe by (simp del: dsub.simps)
  from p have p': "p_energy primary = Finite 10000000000"
    unfolding pe GeV_icetray by (simp add: round_double_1e10)
  from da have da': "p_energy daughter = Finite 9999990000"
    unfolding de' GeV_icetray by (simp add: round_double_9999990000)
  from h have h': "p_energy hadrons = Finite 10000"
    unfolding v GeV_icetray by (simp add: round_double_10000)
  from b [THEN spec, of 10000000000, THEN spec, of 9999990000, THEN mp, OF pe, THEN mp, OF de']
  have b': "\<bar>10000000000 - 9999990000 - hadron_energy smp\<bar>
       \<le> max (\<bar>10000000000 - hadron_energy smp\<bar> / 2 ^ 53) (1 / 2 ^ 1075)" .
  from s0 d smp v t p' da' h' b' show ?thesis
    by (intro exI [of _ s0] exI [of _ frame'] exI [of _ s'] exI [of _ rs'] exI [of _ susp]
        exI [of _ smp] exI [of _ rs1] exI [of _ primary] exI [of _ daughter]
        exI [of _ hadrons] conjI)
qed

text \<open>
  An event whose energies do not add up. With the hadron energy range set to the double
  12345.678 and the other parameters at their defaults, the generator that returns the
  lower bounds gives \<open>h = 12345.678\<close> and \<open>f = 0\<close>. The primary energy is 12345678000, the
  daughter energy is 12345665654.322 (rounded), and the primary energy minus the daughter
  energy is 12345.67799949646, not \<open>h\<close>.
\<close>

theorem energy_partition_not_exact:
  "\<exists>s frame' s' rs' susp smp rs1 primary daughter hadrons.
     Configure (defaults\<lparr>param_hadron_energy_range :=
        (848388532111147 / 68719476736, 848388532111147 / 68719476736)\<rparr>) = Inr s \<and>
     DAQ lowest icetray s fresh Map.empty = Inr (frame', s', rs', susp) \<and>
     DAQ_sample lowest icetray s fresh = (smp, rs1) \<and>
     hadron_energy smp = fl (12345678 / 1000) \<and> fraction smp = 0 \<and>
     DAQ_energies s (hadron_energy smp) (fraction smp) =
       Inr (Finite 12345678000, Finite (6472684354573173 / 524288)) \<and>
     dsub (Finite 12345678000) (Finite (6472684354573173 / 524288)) =
       Finite (6472690827 / 524288) \<and>
     Finite (6472690827 / 524288) \<noteq> Finite (hadron_energy smp) \<and>
     frame' ''I3MCTree_preMuonProp'' =
       Some [(primary, None), (daughter, Some primary), (hadrons, Some primary)] \<and>
     p_energy primary = Finite 12345678000 \<and>
     p_energy daughter = Finite (6472684354573173 / 524288) \<and>
     p_energy hadrons = Finite (848388532111147 / 68719476736) \<and>
     dsub (p_energy primary) (p_energy daughter) \<noteq> p_energy hadrons"
proof -
  let ?P = "defaults\<lparr>param_hadron_energy_range :=
        (848388532111147 / 68719476736, 848388532111147 / 68719476736)\<rparr>"
  have "param_flavors ?P = param_flavors defaults"
    and "param_interaction_types ?P = param_interaction_types defaults"
    and "param_random_state ?P = param_random_state defaults" by simp_all
  from Configure_default_lists [OF this] obtain s0 where s0: "Configure ?P = Inr s0"
    by (elim exE conjE)
  let ?s = "s0\<lparr>events_done := 0\<rparr>"
  have c: "?s = s0" using s0 by (rule Configure_counter_0)
  have "dadd (Finite (fl (1 / 1000000)))
      (Finite (fst (param_fractional_energy_in_hadrons_range ?P))) \<noteq> Finite 0"
    by (simp add: defaults_def dadd_eps_zero del: dadd.simps)
  from DAQ_lowest_default_lists [OF s0 _ _ this, of icetray 0 fresh Map.empty]
  obtain frame' s' rs' susp where
    d: "DAQ lowest icetray s0 fresh Map.empty = Inr (frame', s', rs', susp)"
    unfolding c by auto
  obtain smp rs1 where smp: "DAQ_sample lowest icetray s0 fresh = (smp, rs1)"
    by (cases "DAQ_sample lowest icetray s0 fresh")
  from DAQ_sample_lowest [OF smp] Configure_Inr_ranges [OF s0]
  have v: "hadron_energy smp = 848388532111147 / 68719476736" "fraction smp = 0"
    by (simp_all add: defaults_def icetray_def)
  have "fl (12345678 / 1000) = of_int 6787108256889176 * 2 powi (13 - 52)"
    by (rule fl_nearest) (simp_all add: power_int_def power_one_over)
  then have w: "hadron_energy smp = fl (12345678 / 1000)"
    unfolding v by (simp add: power_int_def power_one_over)
  from DAQ_energy_fields [OF d smp]
  obtain primary daughter hadrons pe de where
    t: "frame' ''I3MCTree_preMuonProp'' =
       Some [(primary, None), (daughter, Some primary), (hadrons, Some primary)]"
    and e: "DAQ_energies s0 (hadron_energy smp) (fraction smp) = Inr (pe, de)"
    and p: "p_energy primary = dmul pe (Finite (I3Units_GeV icetray))"
    and da: "p_energy daughter = dmul de (Finite (I3Units_GeV icetray))"
    and h: "p_energy hadrons = dmul (Finite (hadron_energy smp)) (Finite (I3Units_GeV icetray))"
    by (elim exE conjE)
  from DAQ_energies_12345 [OF Configure_Inr(5) [OF s0]]
  have e': "DAQ_energies s0 (hadron_energy smp) (fraction smp) =
      Inr (Finite 12345678000, Finite (6472684354573173 / 524288))" unfolding v .
  with e have pe: "pe = Finite 12345678000" and de: "de = Finite (6472684354573173 / 524288)"
    by simp_all
  from p have p': "p_energy primary = Finite 12345678000"
    unfolding pe GeV_icetray by (simp add: round_double_12345678000)
  from da have da': "p_energy daughter = Finite (6472684354573173 / 524288)"
    unfolding de GeV_icetray by (simp add: round_double_12345_daughter)
  from h have h': "p_energy hadrons = Finite (848388532111147 / 68719476736)"
    unfolding v GeV_icetray by (simp add: round_double_12345)
  have "dsub (Finite 12345678000) (Finite (6472684354573173 / 524288)) =
      round_double (12345678000 - 6472684354573173 / 524288)" by simp
  then have b: "dsub (Finite 12345678000) (Finite (6472684354573173 / 524288)) =
       Finite (6472690827 / 524288)" unfolding back_12345 .
  have n: "Finite (6472690827 / 524288) \<noteq> Finite (hadron_energy smp)"
    unfolding v by simp
  have m: "dsub (p_energy primary) (p_energy daughter) \<noteq> p_energy hadrons"
    unfolding p' da' h' b by simp
  from s0 d smp w v(2) e' b n t p' da' h' m show ?thesis
    by (intro exI [of _ s0] exI [of _ frame'] exI [of _ s'] exI [of _ rs'] exI [of _ susp]
        exI [of _ smp] exI [of _ rs1] exI [of _ primary] exI [of _ daughter]
        exI [of _ hadrons] conjI)
qed

text \<open>
  C5. There is a cascade event with a small fraction and a positive hadron energy whose
  daughter energy is negative. The range of the fraction is a parameter that
  \<^verbatim>\<open>Configure\<close> stores as it is given; with both of its bounds at the double nearest to
  \<^verbatim>\<open>-2e-6\<close> and the other parameters at their defaults, the hadron energy sampled is
  10000, the sum \<open>\<epsilon> + f\<close> is \<open>-\<epsilon>\<close>, the primary energy is \<open>-10\<^sup>1\<^sup>0\<close>, and the daughter energy
  computed and stored is \<open>-10000010000\<close>.
\<close>

theorem small_fraction_daughter_energy_negative:
  "\<exists>s frame' s' rs' susp smp rs1 primary daughter hadrons de.
     Configure (defaults\<lparr>param_fractional_energy_in_hadrons_range :=
        (- 4722366482869645 / 2361183241434822606848,
         - 4722366482869645 / 2361183241434822606848)\<rparr>) = Inr s \<and>
     DAQ lowest icetray s fresh Map.empty = Inr (frame', s', rs', susp) \<and>
     DAQ_sample lowest icetray s fresh = (smp, rs1) \<and>
     0 < hadron_energy smp \<and>
     fraction smp = fl (- 2 / 1000000) \<and> \<bar>fraction smp\<bar> < 1 / 100000 \<and>
     DAQ_energies s (hadron_energy smp) (fraction smp) = Inr (Finite (- 10000000000), Finite de) \<and>
     de < 0 \<and>
     frame' ''I3MCTree_preMuonProp'' =
       Some [(primary, None), (daughter, Some primary), (hadrons, Some primary)] \<and>
     p_energy daughter = Finite (- 10000010000)"
proof -
  let ?P = "defaults\<lparr>param_fractional_energy_in_hadrons_range :=
        (- 4722366482869645 / 2361183241434822606848,
         - 4722366482869645 / 2361183241434822606848)\<rparr>"
  have "param_flavors ?P = param_flavors defaults"
    and "param_interaction_types ?P = param_interaction_types defaults"
    and "param_random_state ?P = param_random_state defaults" by simp_all
  from Configure_default_lists [OF this] obtain s0 where s0: "Configure ?P = Inr s0"
    by (elim exE conjE)
  let ?s = "s0\<lparr>events_done := 0\<rparr>"
  have c: "?s = s0" using s0 by (rule Configure_counter_0)
  have "dadd (Finite (fl (1 / 1000000)))
      (Finite (- 4722366482869645 / 2361183241434822606848)) =
    round_double (4722366482869645 / 4722366482869645213696 +
        - 4722366482869645 / 2361183241434822606848)"
    by (simp only: fl_1e_6 dadd.simps)
  then have "dadd (Finite (fl (1 / 1000000)))
      (Finite (- 4722366482869645 / 2361183241434822606848)) \<noteq> Finite 0"
    unfolding sum_minus_2e_6 by simp
  then have "dadd (Finite (fl (1 / 1000000)))
      (Finite (fst (param_fractional_energy_in_hadrons_range ?P))) \<noteq> Finite 0"
    by (simp del: dadd.simps)
  from DAQ_lowest_default_lists [OF s0 _ _ this, of icetray 0 fresh Map.empty]
  obtain frame' s' rs' susp where
    d: "DAQ lowest icetray s0 fresh Map.empty = Inr (frame', s', rs', susp)"
    unfolding c by auto
  obtain smp rs1 where smp: "DAQ_sample lowest icetray s0 fresh = (smp, rs1)"
    by (cases "DAQ_sample lowest icetray s0 fresh")
  from DAQ_sample_lowest [OF smp] Configure_Inr_ranges [OF s0]
  have v: "hadron_energy smp = 10000"
    "fraction smp = - 4722366482869645 / 2361183241434822606848"
    by (simp_all add: defaults_def icetray_def)
  have w: "fraction smp = fl (- 2 / 1000000)" unfolding v fl_minus_2e_6 by (rule refl)
  have sm: "\<bar>fraction smp\<bar> < 1 / 100000" unfolding v by simp
  have pos: "0 < hadron_energy smp" unfolding v by simp
  from DAQ_energy_fields [OF d smp]
  obtain primary daughter hadrons pe de where
    t: "frame' ''I3MCTree_preMuonProp'' =
       Some [(primary, None), (daughter, Some primary), (hadrons, Some primary)]"
    and e: "DAQ_energies s0 (hadron_energy smp) (fraction smp) = Inr (pe, de)"
    and da: "p_energy daughter = dmul de (Finite (I3Units_GeV icetray))"
    by (elim exE conjE)
  from DAQ_energies_minus_2e_6 [OF Configure_Inr(5) [OF s0]]
  have e': "DAQ_energies s0 (hadron_energy smp) (fraction smp) =
      Inr (Finite (- 10000000000), Finite (- 10000010000))" unfolding v .
  with e have de: "de = Finite (- 10000010000)" by simp
  from da have da': "p_energy daughter = Finite (- 10000010000)"
    unfolding de GeV_icetray by (simp add: round_double_minus_10000010000)
  have neg: "(- 10000010000 :: real) < 0" by simp
  from s0 d smp pos w sm e' neg t da' show ?thesis
    by (intro exI [of _ s0] exI [of _ frame'] exI [of _ s'] exI [of _ rs'] exI [of _ susp]
        exI [of _ smp] exI [of _ rs1] exI [of _ primary] exI [of _ daughter]
        exI [of _ hadrons] exI [of _ "- 10000010000"] conjI)
qed

subsection \<open>Claims about the muon\<close>

lemma dir_unit: "(dir_x d)\<^sup>2 + (dir_y d)\<^sup>2 + (dir_z d)\<^sup>2 = 1"
proof -
  have "(sin (dir_zenith d) * cos (dir_azimuth d))\<^sup>2 + (sin (dir_zenith d) * sin (dir_azimuth d))\<^sup>2
      = (sin (dir_zenith d))\<^sup>2 * ((cos (dir_azimuth d))\<^sup>2 + (sin (dir_azimuth d))\<^sup>2)"
    by (simp only: power_mult_distrib distrib_left)
  also have "\<dots> = (sin (dir_zenith d))\<^sup>2"
    by (simp add: add.commute)
  finally show ?thesis
    by (simp add: dir_x_def dir_y_def dir_z_def)
qed

lemma distance_back:
  "distance (I3Position_sub a (I3Direction_rmul l d)) a = \<bar>l\<bar>"
proof -
  have "(l * dir_x d)\<^sup>2 + (l * dir_y d)\<^sup>2 + (l * dir_z d)\<^sup>2
      = l\<^sup>2 * ((dir_x d)\<^sup>2 + (dir_y d)\<^sup>2 + (dir_z d)\<^sup>2)"
    by (simp add: power_mult_distrib distrib_left)
  also have "\<dots> = l\<^sup>2" by (simp add: dir_unit)
  finally show ?thesis
    by (simp add: distance_def I3Position_sub_def I3Direction_rmul_def)
qed

lemma create_muon_eq:
  assumes "uniform G rs0 ra = (ua, rs1)"
    and "uniform G rs1 rz = (uzen, rs2)"
    and "uniform G rs2 re = (ue, rs3)"
    and "uniform G rs3 rx = (ax, rs4)"
    and "uniform G rs4 ry = (ay, rs5)"
    and "uniform G rs5 rzz = (az, rs6)"
    and "uniform G rs6 rt = (ut, rs7)"
  shows "create_muon G U ra rz re rt rx ry rzz l rs0 =
    (\<lparr>p_type = MuMinus,
      p_pos = I3Position_sub
        \<lparr>pos_x = ax * I3Units_m U, pos_y = ay * I3Units_m U, pos_z = az * I3Units_m U\<rparr>
        (I3Direction_rmul (l * I3Units_m U)
           \<lparr>dir_zenith = uzen * I3Units_deg U, dir_azimuth = ua * I3Units_deg U\<rparr>),
      p_dir = \<lparr>dir_zenith = uzen * I3Units_deg U, dir_azimuth = ua * I3Units_deg U\<rparr>,
      p_time = (ut * I3Units_ns U - l * I3Units_m U / I3Constants_c U * I3Units_ns U) * I3Units_ns U,
      p_energy = Finite (ue * I3Units_GeV U * I3Units_GeV U),
      p_speed = I3Constants_c U,
      p_shape = Null,
      p_location_type = InIce\<rparr>, rs7)"
  using assms by (simp add: create_muon_def Let_def)

text \<open>
  C4. For every muon that \<^verbatim>\<open>create_muon\<close> samples, in the unit system of the framework
  (the metre and the nanosecond are 1), with the anchor the fourth to sixth draws and the
  anchor time the seventh: the vertex of the muon is the anchor minus the length to go
  back times the unit vector of the muon's direction, and its time is the anchor time
  minus that length over the muon's speed. The direction vector has length 1, so the
  vertex is at that distance from the anchor. In particular, for the anchor (0, 0, 0), a
  zenith of 180 degrees and a length of 2000, the vertex is on the z axis at distance 2000
  from the anchor, and the time is the anchor time minus 2000 over the speed. The
  arithmetic is the exact one of the reals.
\<close>

theorem muon_back_projection:
  assumes "uniform G rs0 ra = (ua, rs1)"
    and "uniform G rs1 rz = (uzen, rs2)"
    and "uniform G rs2 re = (ue, rs3)"
    and "uniform G rs3 rx = (ax, rs4)"
    and "uniform G rs4 ry = (ay, rs5)"
    and "uniform G rs5 rzz = (az, rs6)"
    and "uniform G rs6 rt = (ut, rs7)"
    and "I3Units_m U = 1" and "I3Units_ns U = 1"
    and "create_muon G U ra rz re rt rx ry rzz l rs0 = (muon, rs')"
  shows "p_pos muon =
           I3Position_sub \<lparr>pos_x = ax, pos_y = ay, pos_z = az\<rparr> (I3Direction_rmul l (p_dir muon)) \<and>
         p_time muon = ut - l / p_speed muon \<and>
         p_dir muon = \<lparr>dir_zenith = uzen * I3Units_deg U, dir_azimuth = ua * I3Units_deg U\<rparr> \<and>
         p_speed muon = I3Constants_c U \<and>
         (dir_x (p_dir muon))\<^sup>2 + (dir_y (p_dir muon))\<^sup>2 + (dir_z (p_dir muon))\<^sup>2 = 1 \<and>
         distance (p_pos muon) \<lparr>pos_x = ax, pos_y = ay, pos_z = az\<rparr> = \<bar>l\<bar> \<and>
         (ax = 0 \<and> ay = 0 \<and> az = 0 \<and> uzen * I3Units_deg U = pi \<and> l = 2000 \<longrightarrow>
            pos_x (p_pos muon) = 0 \<and> pos_y (p_pos muon) = 0 \<and> \<bar>pos_z (p_pos muon)\<bar> = 2000 \<and>
            distance (p_pos muon) \<lparr>pos_x = 0, pos_y = 0, pos_z = 0\<rparr> = 2000 \<and>
            p_time muon = ut - 2000 / p_speed muon)"
proof -
  let ?d = "\<lparr>dir_zenith = uzen * I3Units_deg U, dir_azimuth = ua * I3Units_deg U\<rparr>"
  let ?a = "\<lparr>pos_x = ax, pos_y = ay, pos_z = az\<rparr>"
  from create_muon_eq [OF assms(1-7), of U l] assms(8-10)
  have pos: "p_pos muon = I3Position_sub ?a (I3Direction_rmul l ?d)"
    and dir: "p_dir muon = ?d"
    and time: "p_time muon = ut - l / I3Constants_c U"
    and speed: "p_speed muon = I3Constants_c U"
    by auto
  have dist: "distance (p_pos muon) ?a = \<bar>l\<bar>"
    unfolding pos by (rule distance_back)
  have special: "pos_x (p_pos muon) = 0 \<and> pos_y (p_pos muon) = 0 \<and> \<bar>pos_z (p_pos muon)\<bar> = 2000 \<and>
            distance (p_pos muon) \<lparr>pos_x = 0, pos_y = 0, pos_z = 0\<rparr> = 2000 \<and>
            p_time muon = ut - 2000 / p_speed muon"
    if h: "ax = 0 \<and> ay = 0 \<and> az = 0 \<and> uzen * I3Units_deg U = pi \<and> l = 2000"
  proof -
    from h pos have "pos_x (p_pos muon) = 0" "pos_y (p_pos muon) = 0" "pos_z (p_pos muon) = - 2000"
      by (simp_all add: I3Position_sub_def I3Direction_rmul_def dir_x_def dir_y_def dir_z_def)
    moreover from h dist have "distance (p_pos muon) \<lparr>pos_x = 0, pos_y = 0, pos_z = 0\<rparr> = 2000"
      by simp
    moreover from h time speed have "p_time muon = ut - 2000 / p_speed muon" by simp
    ultimately show ?thesis by simp
  qed
  from pos dir time speed dist special dir_unit [of "p_dir muon"] show ?thesis
    by simp
qed

lemma uniform_lowest:
  "uniform lowest rs r =
     (fst r, \<lparr>rng = Suc (rng rs), calls = calls rs @ [Uniform (fst r) (snd r)]\<rparr>)"
  by (simp add: uniform_def lowest_def)

theorem muon_back_projection_witness:
  "\<exists>muon rs'.
     create_muon lowest icetray (0, 0) (180, 180) (10000, 10000) (9000, 9000)
       (0, 0) (0, 0) (0, 0) 2000 fresh = (muon, rs') \<and>
     pos_x (p_pos muon) = 0 \<and> pos_y (p_pos muon) = 0 \<and> \<bar>pos_z (p_pos muon)\<bar> = 2000 \<and>
     distance (p_pos muon) \<lparr>pos_x = 0, pos_y = 0, pos_z = 0\<rparr> = 2000 \<and>
     p_time muon = 9000 - 2000 / p_speed muon \<and>
     p_speed muon = 299792458 / 1000000000"
proof -
  obtain muon rs' where m: "create_muon lowest icetray (0, 0) (180, 180) (10000, 10000)
      (9000, 9000) (0, 0) (0, 0) (0, 0) 2000 fresh = (muon, rs')"
    by (cases "create_muon lowest icetray (0, 0) (180, 180) (10000, 10000)
      (9000, 9000) (0, 0) (0, 0) (0, 0) 2000 fresh")
  have u: "I3Units_m icetray = 1" "I3Units_ns icetray = 1"
    and a: "180 * I3Units_deg icetray = pi"
    and c: "I3Constants_c icetray = 299792458 / 1000000000"
    by (simp_all add: icetray_def)
  note t = muon_back_projection
    [OF uniform_lowest uniform_lowest uniform_lowest uniform_lowest uniform_lowest
      uniform_lowest uniform_lowest u m]
  from t [THEN conjunct2, THEN conjunct2, THEN conjunct2, THEN conjunct1] c
  have sp: "p_speed muon = 299792458 / 1000000000" by simp
  from t [THEN conjunct2, THEN conjunct2, THEN conjunct2, THEN conjunct2, THEN conjunct2,
      THEN conjunct2] a
  have "pos_x (p_pos muon) = 0 \<and> pos_y (p_pos muon) = 0 \<and> \<bar>pos_z (p_pos muon)\<bar> = 2000 \<and>
     distance (p_pos muon) \<lparr>pos_x = 0, pos_y = 0, pos_z = 0\<rparr> = 2000 \<and>
     p_time muon = 9000 - 2000 / p_speed muon"
    by simp
  with sp have "pos_x (p_pos muon) = 0 \<and> pos_y (p_pos muon) = 0 \<and> \<bar>pos_z (p_pos muon)\<bar> = 2000 \<and>
     distance (p_pos muon) \<lparr>pos_x = 0, pos_y = 0, pos_z = 0\<rparr> = 2000 \<and>
     p_time muon = 9000 - 2000 / p_speed muon \<and>
     p_speed muon = 299792458 / 1000000000"
    by simp
  with m show ?thesis by blast
qed

subsection \<open>The run of the ParticleMultiplier\<close>

lemma PM_DAQ_eq:
  "PM_DAQ s fr =
     (fr(''I3MCTree_preMuonProp'' \<mapsto> [(pm_primary s, None)]),
      s\<lparr>pm_events_done := pm_events_done s + 1\<rparr>,
      pm_num_events s \<le> pm_events_done s + 1)"
  by (simp add: PM_DAQ_def Let_def add_primary_def)

lemma PM_Execute_frames:
  "PM_Execute s =
     (replicate (nat (max 1 (pm_num_events s - pm_events_done s))) (fst (PM_DAQ s Map.empty)),
      s\<lparr>pm_events_done := pm_events_done s + max 1 (pm_num_events s - pm_events_done s)\<rparr>)"
proof (induction s rule: PM_Execute.induct)
  case (1 self)
  let ?s' = "self\<lparr>pm_events_done := pm_events_done self + 1\<rparr>"
  define f where "f = fst (PM_DAQ self Map.empty)"
  have d: "PM_DAQ self Map.empty = (f, ?s', pm_num_events self \<le> pm_events_done self + 1)"
    by (simp add: f_def PM_DAQ_eq)
  have f': "fst (PM_DAQ ?s' Map.empty) = f"
    by (simp add: f_def PM_DAQ_eq)
  show ?case
  proof (cases "pm_num_events self \<le> pm_events_done self + 1")
    case True
    then have m: "max 1 (pm_num_events self - pm_events_done self) = 1" by simp
    from True d have "PM_Execute self = ([f], ?s')"
      by (subst PM_Execute.simps) simp
    with m show ?thesis by (simp add: f_def [symmetric])
  next
    case False
    then have m: "max 1 (pm_num_events self - pm_events_done self) =
        pm_num_events self - pm_events_done self"
      and m': "max 1 (pm_num_events ?s' - pm_events_done ?s') =
        pm_num_events self - pm_events_done self - 1" by simp_all
    from False have n: "nat (pm_num_events self - pm_events_done self) =
        Suc (nat (pm_num_events self - pm_events_done self - 1))" by simp
    from False d have e: "PM_Execute self = (f # fst (PM_Execute ?s'), snd (PM_Execute ?s'))"
      by (subst PM_Execute.simps) (simp split: prod.splits)
    from False d have "PM_Execute ?s' =
     (replicate (nat (max 1 (pm_num_events ?s' - pm_events_done ?s')))
        (fst (PM_DAQ ?s' Map.empty)),
      ?s'\<lparr>pm_events_done := pm_events_done ?s' + max 1 (pm_num_events ?s' - pm_events_done ?s')\<rparr>)"
      by (intro "1.IH" [of f "(?s', False)" ?s' False]) simp_all
    with e show ?thesis
      unfolding m m' n f' f_def [symmetric] by simp
  qed
qed

lemma PM_Execute_eq:
  "PM_Execute s =
     (replicate (nat (max 1 (pm_num_events s - pm_events_done s)))
        [''I3MCTree_preMuonProp'' \<mapsto> [(pm_primary s, None)]],
      s\<lparr>pm_events_done := pm_events_done s + max 1 (pm_num_events s - pm_events_done s)\<rparr>)"
  by (subst PM_Execute_frames) (simp only: PM_DAQ_eq fst_conv)

lemma create_muon_calls:
  "create_muon G U ra rz re rt rx ry rzz l rs = (muon, rs') \<Longrightarrow>
   calls rs' = calls rs @
     [Uniform (fst ra) (snd ra), Uniform (fst rz) (snd rz), Uniform (fst re) (snd re),
      Uniform (fst rx) (snd rx), Uniform (fst ry) (snd ry), Uniform (fst rzz) (snd rzz),
      Uniform (fst rt) (snd rt)]"
  by (auto simp: create_muon_def uniform_def Let_def split: prod.splits)

text \<open>
  C9. In the muon script the muon is sampled once, by the seven draws of
  \<^verbatim>\<open>create_muon\<close> before the run, and the run draws nothing more: every frame the run
  pushes holds the tree of that one muon and nothing else, so the primaries of any two
  frames are the same particle, with the same position, time, direction and energy. The
  run pushes as many frames as events were asked for (one when fewer than one).
\<close>

theorem muon_replayed:
  assumes "muon_main G U cfg rs = ((frames, pm), rs')"
  shows "\<exists>muon.
     create_muon G U (cfg_azimuth_min cfg, cfg_azimuth_max cfg)
       (cfg_zenith_min cfg, cfg_zenith_max cfg) (cfg_e_min cfg, cfg_e_max cfg)
       (cfg_anchor_time_range cfg) (cfg_anchor_x_range cfg) (cfg_anchor_y_range cfg)
       (cfg_anchor_z_range cfg) (cfg_length_to_go_back cfg) rs = (muon, rs') \<and>
     calls rs' = calls rs @
       [Uniform (cfg_azimuth_min cfg) (cfg_azimuth_max cfg),
        Uniform (cfg_zenith_min cfg) (cfg_zenith_max cfg),
        Uniform (cfg_e_min cfg) (cfg_e_max cfg),
        Uniform (fst (cfg_anchor_x_range cfg)) (snd (cfg_anchor_x_range cfg)),
        Uniform (fst (cfg_anchor_y_range cfg)) (snd (cfg_anchor_y_range cfg)),
        Uniform (fst (cfg_anchor_z_range cfg)) (snd (cfg_anchor_z_range cfg)),
        Uniform (fst (cfg_anchor_time_range cfg)) (snd (cfg_anchor_time_range cfg))] \<and>
     length frames = nat (max 1 (cfg_n_events_per_run cfg)) \<and>
     (\<forall>i<length frames. frames ! i = [''I3MCTree_preMuonProp'' \<mapsto> [(muon, None)]]) \<and>
     (\<forall>i<length frames. \<forall>j<length frames. frames ! i = frames ! j)"
proof -
  obtain muon rs1 where m: "create_muon G U (cfg_azimuth_min cfg, cfg_azimuth_max cfg)
       (cfg_zenith_min cfg, cfg_zenith_max cfg) (cfg_e_min cfg, cfg_e_max cfg)
       (cfg_anchor_time_range cfg) (cfg_anchor_x_range cfg) (cfg_anchor_y_range cfg)
       (cfg_anchor_z_range cfg) (cfg_length_to_go_back cfg) rs = (muon, rs1)"
    by (cases "create_muon G U (cfg_azimuth_min cfg, cfg_azimuth_max cfg)
       (cfg_zenith_min cfg, cfg_zenith_max cfg) (cfg_e_min cfg, cfg_e_max cfg)
       (cfg_anchor_time_range cfg) (cfg_anchor_x_range cfg) (cfg_anchor_y_range cfg)
       (cfg_anchor_z_range cfg) (cfg_length_to_go_back cfg) rs")
  from assms m have r: "rs1 = rs'"
    and e: "PM_Execute (PM_Configure (cfg_n_events_per_run cfg) muon) = (frames, pm)"
    by (simp_all add: muon_main_def)
  from e have f: "frames = replicate (nat (max 1 (cfg_n_events_per_run cfg)))
      [''I3MCTree_preMuonProp'' \<mapsto> [(muon, None)]]"
    by (simp add: PM_Execute_eq PM_Configure_def)
  from create_muon_calls [OF m] r have c: "calls rs' = calls rs @
       [Uniform (cfg_azimuth_min cfg) (cfg_azimuth_max cfg),
        Uniform (cfg_zenith_min cfg) (cfg_zenith_max cfg),
        Uniform (cfg_e_min cfg) (cfg_e_max cfg),
        Uniform (fst (cfg_anchor_x_range cfg)) (snd (cfg_anchor_x_range cfg)),
        Uniform (fst (cfg_anchor_y_range cfg)) (snd (cfg_anchor_y_range cfg)),
        Uniform (fst (cfg_anchor_z_range cfg)) (snd (cfg_anchor_z_range cfg)),
        Uniform (fst (cfg_anchor_time_range cfg)) (snd (cfg_anchor_time_range cfg))]"
    by simp
  from f have l: "length frames = nat (max 1 (cfg_n_events_per_run cfg))"
    by (simp only: length_replicate)
  have a: "\<forall>i<length frames. frames ! i = [''I3MCTree_preMuonProp'' \<mapsto> [(muon, None)]]"
  proof (intro allI impI)
    fix i
    assume "i < length frames"
    with l have "i < nat (max 1 (cfg_n_events_per_run cfg))" by simp
    then have "replicate (nat (max 1 (cfg_n_events_per_run cfg)))
      [''I3MCTree_preMuonProp'' \<mapsto> [(muon, None)]] ! i =
      [''I3MCTree_preMuonProp'' \<mapsto> [(muon, None)]]"
      by (rule nth_replicate)
    then show "frames ! i = [''I3MCTree_preMuonProp'' \<mapsto> [(muon, None)]]"
      by (simp only: f)
  qed
  have b: "\<forall>i<length frames. \<forall>j<length frames. frames ! i = frames ! j"
  proof (intro allI impI)
    fix i j
    assume "i < length frames" "j < length frames"
    with a have "frames ! i = [''I3MCTree_preMuonProp'' \<mapsto> [(muon, None)]]"
      "frames ! j = [''I3MCTree_preMuonProp'' \<mapsto> [(muon, None)]]" by (simp_all only:)
    then show "frames ! i = frames ! j" by (simp only:)
  qed
  from m r have "create_muon G U (cfg_azimuth_min cfg, cfg_azimuth_max cfg)
       (cfg_zenith_min cfg, cfg_zenith_max cfg) (cfg_e_min cfg, cfg_e_max cfg)
       (cfg_anchor_time_range cfg) (cfg_anchor_x_range cfg) (cfg_anchor_y_range cfg)
       (cfg_anchor_z_range cfg) (cfg_length_to_go_back cfg) rs = (muon, rs')" by simp
  with c l a b show ?thesis
    by (intro exI [of _ muon] conjI)
qed

theorem muon_replayed_witness:
  "\<exists>frames pm rs' muon.
     muon_main lowest icetray
       \<lparr>cfg_azimuth_min = 0, cfg_azimuth_max = 360, cfg_zenith_min = 0, cfg_zenith_max = 180,
        cfg_e_min = 10000, cfg_e_max = 10000, cfg_anchor_time_range = (9000, 12000),
        cfg_anchor_x_range = (- 400, 400), cfg_anchor_y_range = (- 400, 400),
        cfg_anchor_z_range = (- 400, 400), cfg_length_to_go_back = 2000,
        cfg_n_events_per_run = 3\<rparr> fresh = ((frames, pm), rs') \<and>
     length frames = 3 \<and>
     frames ! 0 = [''I3MCTree_preMuonProp'' \<mapsto> [(muon, None)]] \<and>
     frames ! 1 = frames ! 0 \<and> frames ! 2 = frames ! 0 \<and>
     length (calls rs') = 7"
proof -
  let ?cfg = "\<lparr>cfg_azimuth_min = 0, cfg_azimuth_max = 360, cfg_zenith_min = 0, cfg_zenith_max = 180,
        cfg_e_min = 10000, cfg_e_max = 10000, cfg_anchor_time_range = (9000, 12000),
        cfg_anchor_x_range = (- 400, 400), cfg_anchor_y_range = (- 400, 400),
        cfg_anchor_z_range = (- 400, 400), cfg_length_to_go_back = 2000,
        cfg_n_events_per_run = 3\<rparr>"
  obtain frames pm rs' where r: "muon_main lowest icetray ?cfg fresh = ((frames, pm), rs')"
    by (cases "muon_main lowest icetray ?cfg fresh") auto
  from muon_replayed [OF r] obtain muon where
    c: "calls rs' = calls fresh @
       [Uniform (cfg_azimuth_min ?cfg) (cfg_azimuth_max ?cfg),
        Uniform (cfg_zenith_min ?cfg) (cfg_zenith_max ?cfg),
        Uniform (cfg_e_min ?cfg) (cfg_e_max ?cfg),
        Uniform (fst (cfg_anchor_x_range ?cfg)) (snd (cfg_anchor_x_range ?cfg)),
        Uniform (fst (cfg_anchor_y_range ?cfg)) (snd (cfg_anchor_y_range ?cfg)),
        Uniform (fst (cfg_anchor_z_range ?cfg)) (snd (cfg_anchor_z_range ?cfg)),
        Uniform (fst (cfg_anchor_time_range ?cfg)) (snd (cfg_anchor_time_range ?cfg))]"
    and l: "length frames = nat (max 1 (cfg_n_events_per_run ?cfg))"
    and a: "\<forall>i<length frames. frames ! i = [''I3MCTree_preMuonProp'' \<mapsto> [(muon, None)]]"
    by (elim exE conjE)
  from c have c7: "length (calls rs') = 7" by (simp add: fresh_def)
  from l have l3: "length frames = 3" by simp
  from a l3 have f0: "frames ! 0 = [''I3MCTree_preMuonProp'' \<mapsto> [(muon, None)]]"
    and "frames ! 1 = [''I3MCTree_preMuonProp'' \<mapsto> [(muon, None)]]"
    and "frames ! 2 = [''I3MCTree_preMuonProp'' \<mapsto> [(muon, None)]]" by simp_all
  then have "frames ! 1 = frames ! 0" "frames ! 2 = frames ! 0" by (simp_all only:)
  with r c7 l3 f0 show ?thesis
    by (intro exI [of _ frames] exI [of _ pm] exI [of _ rs'] exI [of _ muon] conjI)
qed

subsection \<open>The count of events\<close>

lemma Execute_Inr_D:
  "Execute G U s rs = (frames, Inr (s', rs')) \<Longrightarrow>
   length frames = nat (max 1 (num_events s - events_done s)) \<and>
   s' = s\<lparr>events_done := events_done s + max 1 (num_events s - events_done s)\<rparr>"
proof (induction G U s rs arbitrary: frames rule: Execute.induct)
  case (1 G U self rs)
  show ?case
  proof (cases "DAQ G U self rs Map.empty")
    case (Inl e1)
    from Execute_Inl [OF Inl] "1.prems" show ?thesis by simp
  next
    case (Inr out)
    obtain fr s1 rs1 b where o: "out = (fr, s1, rs1, b)"
      by (cases out) auto
    show ?thesis
    proof (cases b)
      case True
      from Inr o True have d: "DAQ G U self rs Map.empty = Inr (fr, s1, rs1, True)" by simp
      from DAQ_Inr_state [OF d] Execute_stop [OF d] "1.prems" show ?thesis by auto
    next
      case False
      from Inr o False have d: "DAQ G U self rs Map.empty = Inr (fr, s1, rs1, False)" by simp
      from DAQ_Inr_state [OF d] have s1: "s1 = self\<lparr>events_done := events_done self + 1\<rparr>"
        and lt: "events_done self + 1 < num_events self"
        by simp_all
      obtain fs where fs: "fs = fst (Execute G U s1 rs1)" by simp
      from Execute_step [OF d] "1.prems"
      have r: "Execute G U s1 rs1 = (fs, Inr (s', rs'))" and f: "length frames = Suc (length fs)"
        by (auto simp: prod_eq_iff fs)
      have "length fs = nat (max 1 (num_events s1 - events_done s1)) \<and>
        s' = s1\<lparr>events_done := events_done s1 + max 1 (num_events s1 - events_done s1)\<rparr>"
        using "1.IH" [of "(fr, s1, rs1, False)" fr "(s1, rs1, False)" s1 "(rs1, False)" rs1 False
            fs] d r
        by simp
      with s1 lt have "length fs = nat (num_events self - events_done self - 1) \<and>
        s' = self\<lparr>events_done := num_events self\<rparr>"
        by (simp add: max_def)
      with f lt show ?thesis by (simp add: max_def)
    qed
  qed
qed

lemma DAQ_lowest_defaults_counter:
  assumes "Configure defaults = Inr s"
  shows "\<exists>fr s' rs'. DAQ lowest icetray (s\<lparr>events_done := k\<rparr>) fresh Map.empty =
           Inr (fr, s', rs', num_events s \<le> k + 1) \<and> events_done s' = k + 1 \<and>
           fr ''I3MCTree_preMuonProp'' \<noteq> None"
proof -
  have "dadd (Finite (fl (1 / 1000000)))
      (Finite (fst (param_fractional_energy_in_hadrons_range defaults))) \<noteq> Finite 0"
    by (simp add: defaults_def dadd_eps_zero del: dadd.simps)
  from DAQ_lowest_default_lists [OF assms refl refl this, of icetray k fresh Map.empty]
  obtain fr rs' where
    d: "DAQ lowest icetray (s\<lparr>events_done := k\<rparr>) fresh Map.empty =
          Inr (fr, s\<lparr>events_done := k + 1\<rparr>, rs', num_events s \<le> k + 1)"
    by (elim exE)
  from d have "fr ''I3MCTree_preMuonProp'' \<noteq> None"
    by (rule DAQ_Inr_D) simp
  with d show ?thesis
    by (intro exI [of _ fr] exI [of _ "s\<lparr>events_done := k + 1\<rparr>"] exI [of _ rs'] conjI)
      simp_all
qed

text \<open>
  C6, as the code has it. Each call of \<^verbatim>\<open>DAQ\<close> that raises nothing writes one tree
  into the frame it pushes, advances the counter by one and requests the suspension of
  the run exactly when the counter has reached the number of events: for a number \<open>N\<close>
  of at least one, in the \<open>N\<close>-th call and in none before. A run that the framework stops
  at the request has pushed exactly \<open>N\<close> frames. Neither module looks at the counter
  before it builds the tree: there is no state in which a call refuses to produce.
\<close>

theorem event_count_driver:
  "(DAQ G U s rs frame = Inr (frame', s', rs', susp) \<longrightarrow>
      events_done s' = events_done s + 1 \<and>
      (susp \<longleftrightarrow> num_events s \<le> events_done s + 1) \<and>
      (\<exists>tree. frame' = frame(''I3MCTree_preMuonProp'' \<mapsto> tree))) \<and>
   PM_DAQ pm frame =
     (frame(''I3MCTree_preMuonProp'' \<mapsto> [(pm_primary pm, None)]),
      pm\<lparr>pm_events_done := pm_events_done pm + 1\<rparr>,
      pm_num_events pm \<le> pm_events_done pm + 1) \<and>
   (1 \<le> n \<longrightarrow>
      PM_Execute (PM_Configure n p) =
        (replicate (nat n) [''I3MCTree_preMuonProp'' \<mapsto> [(p, None)]],
         \<lparr>pm_num_events = n, pm_primary = p, pm_events_done = n\<rparr>)) \<and>
   (Configure P = Inr s0 \<and> 1 \<le> param_num_events P \<and>
    cascade_main G U P rs = (frames, Inr (sN, rsN)) \<longrightarrow>
      length frames = nat (param_num_events P) \<and> events_done sN = param_num_events P)"
proof (intro conjI impI)
  assume d: "DAQ G U s rs frame = Inr (frame', s', rs', susp)"
  from DAQ_Inr_state [OF d] show "events_done s' = events_done s + 1"
    and "susp \<longleftrightarrow> num_events s \<le> events_done s + 1" by simp_all
  from d show "\<exists>tree. frame' = frame(''I3MCTree_preMuonProp'' \<mapsto> tree)"
    by (rule DAQ_Inr_D) (rule exI)
next
  show "PM_DAQ pm frame =
     (frame(''I3MCTree_preMuonProp'' \<mapsto> [(pm_primary pm, None)]),
      pm\<lparr>pm_events_done := pm_events_done pm + 1\<rparr>,
      pm_num_events pm \<le> pm_events_done pm + 1)"
    by (rule PM_DAQ_eq)
next
  assume "1 \<le> n"
  then show "PM_Execute (PM_Configure n p) =
        (replicate (nat n) [''I3MCTree_preMuonProp'' \<mapsto> [(p, None)]],
         \<lparr>pm_num_events = n, pm_primary = p, pm_events_done = n\<rparr>)"
    by (simp add: PM_Execute_eq PM_Configure_def)
next
  assume a: "Configure P = Inr s0 \<and> 1 \<le> param_num_events P \<and>
    cascade_main G U P rs = (frames, Inr (sN, rsN))"
  then have e: "Execute G U s0 rs = (frames, Inr (sN, rsN))"
    by (auto simp: cascade_main_def)
  from a Configure_Inr(6,7) [of P s0] have "events_done s0 = 0" "num_events s0 = param_num_events P"
    by simp_all
  with Execute_Inr_D [OF e] a
  show "length frames = nat (param_num_events P)" and "events_done sN = param_num_events P"
    by simp_all
qed

theorem event_count_driver_witness:
  "\<exists>s0 fr s1 rs1.
     Configure defaults = Inr s0 \<and> num_events s0 = 1 \<and>
     DAQ lowest icetray s0 fresh Map.empty = Inr (fr, s1, rs1, True) \<and>
     events_done s1 = 1 \<and>
     cascade_main lowest icetray defaults fresh = ([fr], Inr (s1, rs1)) \<and>
     length [fr] = nat (param_num_events defaults) \<and>
     PM_Execute (PM_Configure 3 (fst (create_muon lowest icetray (0, 0) (180, 180)
         (10000, 10000) (9000, 9000) (0, 0) (0, 0) (0, 0) 2000 fresh))) =
       (replicate (nat 3) [''I3MCTree_preMuonProp'' \<mapsto>
           [(fst (create_muon lowest icetray (0, 0) (180, 180)
               (10000, 10000) (9000, 9000) (0, 0) (0, 0) (0, 0) 2000 fresh), None)]],
        \<lparr>pm_num_events = 3,
          pm_primary = fst (create_muon lowest icetray (0, 0) (180, 180)
            (10000, 10000) (9000, 9000) (0, 0) (0, 0) (0, 0) 2000 fresh),
          pm_events_done = 3\<rparr>)"
proof -
  let ?m = "fst (create_muon lowest icetray (0, 0) (180, 180)
         (10000, 10000) (9000, 9000) (0, 0) (0, 0) (0, 0) 2000 fresh)"
  obtain s0 where s0: "Configure defaults = Inr s0"
    using Configure_defaults by (elim exE)
  from Configure_Inr(6,7) [OF s0] have c: "events_done s0 = 0" and n: "num_events s0 = 1"
    by (simp_all add: defaults_def)
  from c have u: "s0\<lparr>events_done := 0\<rparr> = s0" by (cases s0) simp
  from DAQ_lowest_defaults_counter [OF s0, of 0] n u obtain fr s1 rs1 where
    d: "DAQ lowest icetray s0 fresh Map.empty = Inr (fr, s1, rs1, True)" by auto
  from Execute_stop [OF d] s0
  have r: "cascade_main lowest icetray defaults fresh = ([fr], Inr (s1, rs1))"
    by (simp add: cascade_main_def)
  note t = event_count_driver [where G = lowest and U = icetray and s = s0 and rs = fresh
      and frame = Map.empty and frame' = fr and s' = s1 and rs' = rs1 and susp = True
      and n = 3 and p = ?m and P = defaults and ?s0.0 = s0 and frames = "[fr]" and sN = s1
      and rsN = rs1]
  from t [THEN conjunct1] d c have e: "events_done s1 = 1" by simp
  from t [THEN conjunct2, THEN conjunct2, THEN conjunct1]
  have p: "PM_Execute (PM_Configure 3 ?m) =
       (replicate (nat 3) [''I3MCTree_preMuonProp'' \<mapsto> [(?m, None)]],
        \<lparr>pm_num_events = 3, pm_primary = ?m, pm_events_done = 3\<rparr>)" by simp
  from t [THEN conjunct2, THEN conjunct2, THEN conjunct2] s0 r
  have l: "length [fr] = nat (param_num_events defaults)" by (simp add: defaults_def)
  from s0 n d e r l p show ?thesis
    by (intro exI [of _ s0] exI [of _ fr] exI [of _ s1] exI [of _ rs1] conjI)
qed

text \<open>
  The cascade module with the default parameters asks for one event. Called again when
  its counter is already at 1, \<^verbatim>\<open>DAQ\<close> raises nothing: it pushes a second tree, moves
  the counter to 2 and requests the suspension once more.
\<close>

theorem daq_after_done_produces:
  "\<exists>s0 fr s2 rs2.
     Configure defaults = Inr s0 \<and> num_events s0 = 1 \<and>
     DAQ lowest icetray (s0\<lparr>events_done := 1\<rparr>) fresh Map.empty = Inr (fr, s2, rs2, True) \<and>
     events_done s2 = 2 \<and> fr ''I3MCTree_preMuonProp'' \<noteq> None"
proof -
  obtain s0 where s0: "Configure defaults = Inr s0"
    using Configure_defaults by (elim exE)
  from Configure_Inr(7) [OF s0] have n: "num_events s0 = 1"
    by (simp add: defaults_def)
  from DAQ_lowest_defaults_counter [OF s0, of 1] n obtain fr s2 rs2 where
    "DAQ lowest icetray (s0\<lparr>events_done := 1\<rparr>) fresh Map.empty = Inr (fr, s2, rs2, True)"
    "events_done s2 = 2" "fr ''I3MCTree_preMuonProp'' \<noteq> None" by auto
  with s0 n show ?thesis
    by (intro exI [of _ s0] exI [of _ fr] exI [of _ s2] exI [of _ rs2] conjI)
qed

subsection \<open>Determinism and the order of the draws\<close>

lemma uniform_rng:
  assumes "rng rs1 = rng rs2"
  shows "fst (uniform G rs1 r) = fst (uniform G rs2 r)"
    and "rng (snd (uniform G rs1 r)) = rng (snd (uniform G rs2 r))"
  using assms by (simp_all add: uniform_def split: prod.splits)

lemma integer_rng:
  assumes "rng rs1 = rng rs2"
  shows "fst (integer G rs1 n) = fst (integer G rs2 n)"
    and "rng (snd (integer G rs1 n)) = rng (snd (integer G rs2 n))"
  using assms by (simp_all add: integer_def split: prod.splits)

lemma DAQ_sample_rng:
  assumes "rng rs1 = rng rs2"
  shows "fst (DAQ_sample G U (s\<lparr>random_state := x\<rparr>) rs2) = fst (DAQ_sample G U s rs1)"
    and "rng (snd (DAQ_sample G U (s\<lparr>random_state := x\<rparr>) rs2)) = rng (snd (DAQ_sample G U s rs1))"
  using assms by (simp_all add: DAQ_sample_def uniform_def split: prod.splits)

lemma DAQ_flavor_interaction_rng:
  assumes "rng rs1 = rng rs2"
  shows "map_sum (\<lambda>e. e) (\<lambda>(sel, r). (sel, rng r)) (DAQ_flavor_interaction G (s\<lparr>random_state := x\<rparr>) rs2)
       = map_sum (\<lambda>e. e) (\<lambda>(sel, r). (sel, rng r)) (DAQ_flavor_interaction G s rs1)"
  using assms by (simp add: DAQ_flavor_interaction_def integer_def split: prod.splits)

lemma DAQ_rng:
  assumes "rng rs1 = rng rs2"
  shows "map_sum (\<lambda>e. e) (\<lambda>(f, s', r, b). (f, s'\<lparr>random_state := x\<rparr>, rng r, b))
           (DAQ G U (s\<lparr>random_state := x\<rparr>) rs2 fr)
       = map_sum (\<lambda>e. e) (\<lambda>(f, s', r, b). (f, s'\<lparr>random_state := x\<rparr>, rng r, b))
           (DAQ G U s rs1 fr)"
proof -
  obtain smp ra where a: "DAQ_sample G U s rs1 = (smp, ra)"
    by (cases "DAQ_sample G U s rs1")
  obtain smp2 rb where b: "DAQ_sample G U (s\<lparr>random_state := x\<rparr>) rs2 = (smp2, rb)"
    by (cases "DAQ_sample G U (s\<lparr>random_state := x\<rparr>) rs2")
  from DAQ_sample_rng [OF assms, where G = G and U = U and s = s and x = x] a b have c: "smp2 = smp" "rng ra = rng rb"
    by simp_all
  have en: "DAQ_energies (s\<lparr>random_state := x\<rparr>) h f = DAQ_energies s h f" for h f
    by (simp add: DAQ_energies_def)
  from DAQ_flavor_interaction_rng [OF c(2), where G = G and s = s and x = x]
  show ?thesis
    by (auto simp: DAQ_def a b c(1) en Let_def split: sum.splits prod.splits)
qed

lemma Execute_rng:
  "rng rs1 = rng rs2 \<Longrightarrow>
   fst (Execute G U (s\<lparr>random_state := x\<rparr>) rs2) = fst (Execute G U s rs1) \<and>
   map_sum (\<lambda>e. e) (\<lambda>(s', r). (s'\<lparr>random_state := x\<rparr>, rng r))
       (snd (Execute G U (s\<lparr>random_state := x\<rparr>) rs2))
     = map_sum (\<lambda>e. e) (\<lambda>(s', r). (s'\<lparr>random_state := x\<rparr>, rng r)) (snd (Execute G U s rs1))"
proof (induction G U s rs1 arbitrary: rs2 rule: Execute.induct)
  case (1 G U self rs)
  let ?s2 = "self\<lparr>random_state := x\<rparr>"
  note D = DAQ_rng [OF "1.prems", where G = G and U = U and s = self and x = x and fr = Map.empty]
  show ?case
  proof (cases "DAQ G U self rs Map.empty")
    case (Inl e)
    with D have "DAQ G U ?s2 rs2 Map.empty = Inl e"
      by (cases "DAQ G U ?s2 rs2 Map.empty") simp_all
    from Execute_Inl [OF this] Execute_Inl [OF Inl] show ?thesis by simp
  next
    case (Inr out)
    obtain f s1 r1 b where o: "out = (f, s1, r1, b)" by (cases out) auto
    with Inr have d1: "DAQ G U self rs Map.empty = Inr (f, s1, r1, b)" by simp
    with D obtain s2 r2 where d2: "DAQ G U ?s2 rs2 Map.empty = Inr (f, s2, r2, b)"
      and r: "rng r1 = rng r2"
      by (cases "DAQ G U ?s2 rs2 Map.empty") auto
    from DAQ_Inr_state [OF d1] DAQ_Inr_state [OF d2] have s2: "s2 = s1\<lparr>random_state := x\<rparr>"
      by simp
    show ?thesis
    proof (cases b)
      case True
      with d1 d2 have "Execute G U self rs = ([f], Inr (s1, r1))"
        "Execute G U ?s2 rs2 = ([f], Inr (s2, r2))"
        by (simp_all add: Execute_stop)
      with r s2 show ?thesis by simp
    next
      case False
      with d1 d2 have e: "Execute G U self rs = (f # fst (Execute G U s1 r1), snd (Execute G U s1 r1))"
        "Execute G U ?s2 rs2 = (f # fst (Execute G U s2 r2), snd (Execute G U s2 r2))"
        by (simp_all add: Execute_step)
      from "1.IH" [of "(f, s1, r1, False)" f "(s1, r1, False)" s1 "(r1, False)" r1 False r2]
        d1 False r
      have "fst (Execute G U (s1\<lparr>random_state := x\<rparr>) r2) = fst (Execute G U s1 r1) \<and>
        map_sum (\<lambda>e. e) (\<lambda>(s', r). (s'\<lparr>random_state := x\<rparr>, rng r))
          (snd (Execute G U (s1\<lparr>random_state := x\<rparr>) r2))
        = map_sum (\<lambda>e. e) (\<lambda>(s', r). (s'\<lparr>random_state := x\<rparr>, rng r)) (snd (Execute G U s1 r1))"
        by simp
      with e s2 show ?thesis by simp
    qed
  qed
qed

lemma Execute_random_state:
  assumes "Execute G U s rs = (frames, Inr (s', rs'))"
  shows "s'\<lparr>random_state := random_state s\<rparr> = s'"
proof -
  from Execute_Inr_D [OF assms]
  have "s' = s\<lparr>events_done := events_done s + max 1 (num_events s - events_done s)\<rparr>"
    by (rule conjunct2)
  then have "random_state s' = random_state s" by simp
  then show ?thesis by simp
qed

lemma Execute_rng_same:
  assumes "rng rs1 = rng rs2"
  shows "fst (Execute G U s rs2) = fst (Execute G U s rs1)"
    and "map_sum (\<lambda>e. e) (\<lambda>(s', r). (s', rng r)) (snd (Execute G U s rs2))
       = map_sum (\<lambda>e. e) (\<lambda>(s', r). (s', rng r)) (snd (Execute G U s rs1))"
proof -
  have u: "s\<lparr>random_state := random_state s\<rparr> = s" by simp
  note E = Execute_rng [OF assms, where G = G and U = U and s = s and x = "random_state s",
      unfolded u]
  from E show "fst (Execute G U s rs2) = fst (Execute G U s rs1)" by (rule conjunct1)
  from E have m: "map_sum (\<lambda>e. e) (\<lambda>(s', r). (s'\<lparr>random_state := random_state s\<rparr>, rng r))
       (snd (Execute G U s rs2))
     = map_sum (\<lambda>e. e) (\<lambda>(s', r). (s'\<lparr>random_state := random_state s\<rparr>, rng r))
       (snd (Execute G U s rs1))" by (rule conjunct2)
  obtain f1 o1 where e1: "Execute G U s rs1 = (f1, o1)" by (cases "Execute G U s rs1")
  obtain f2 o2 where e2: "Execute G U s rs2 = (f2, o2)" by (cases "Execute G U s rs2")
  show "map_sum (\<lambda>e. e) (\<lambda>(s', r). (s', rng r)) (snd (Execute G U s rs2))
       = map_sum (\<lambda>e. e) (\<lambda>(s', r). (s', rng r)) (snd (Execute G U s rs1))"
  proof (cases o1)
    case (Inl e)
    with m e1 e2 show ?thesis by (cases o2) simp_all
  next
    case (Inr p1)
    obtain s1 q1 where p1: "p1 = (s1, q1)" by (cases p1)
    from m e1 e2 Inr obtain p2 where o2: "o2 = Inr p2" by (cases o2) simp_all
    obtain s2 q2 where p2: "p2 = (s2, q2)" by (cases p2)
    from e1 Inr p1 have "Execute G U s rs1 = (f1, Inr (s1, q1))" by simp
    from Execute_random_state [OF this] have a: "s1\<lparr>random_state := random_state s\<rparr> = s1" .
    from e2 o2 p2 have "Execute G U s rs2 = (f2, Inr (s2, q2))" by simp
    from Execute_random_state [OF this] have b: "s2\<lparr>random_state := random_state s\<rparr> = s2" .
    from m e1 e2 Inr o2 p1 p2
    have "s2\<lparr>random_state := random_state s\<rparr> = s1\<lparr>random_state := random_state s\<rparr>"
      and "rng q2 = rng q1" by simp_all
    with a b have "s2 = s1" and "rng q2 = rng q1" by simp_all
    with e1 e2 Inr o2 p1 p2 show ?thesis by simp
  qed
qed

lemma Configure_random_state:
  assumes "0 \<le> x" and "x \<le> 4294967295"
    and "0 \<le> param_random_state P" and "param_random_state P \<le> 4294967295"
  shows "Configure (P\<lparr>param_random_state := x\<rparr>) =
     map_sum (\<lambda>e. e) (\<lambda>s. s\<lparr>random_state := x\<rparr>) (Configure P)"
  using assms by (simp add: Configure_def Let_def split: option.splits)

lemma Configure_Inr_draw_ranges:
  assumes "Configure P = Inr s"
  shows "x_range s = param_x_range P" and "y_range s = param_y_range P"
    and "z_range s = param_z_range P" and "time_range s = param_time_range P"
    and "azimuth_range s = param_azimuth_range P" and "zenith_range s = param_zenith_range P"
  using assms
  by (auto simp: Configure_def Let_def split: option.splits if_splits)

lemma DAQ_sample_eq:
  assumes "uniform G rs (x_range s) = (ux, r1)"
    and "uniform G r1 (y_range s) = (uy, r2)"
    and "uniform G r2 (z_range s) = (uz, r3)"
    and "uniform G r3 (time_range s) = (ut, r4)"
    and "uniform G r4 (azimuth_range s) = (ua, r5)"
    and "uniform G r5 (zenith_range s) = (uzen, r6)"
    and "uniform G r6 (hadron_energy_range s) = (uh, r7)"
    and "uniform G r7 (fractional_energy_in_hadrons_range s) = (uf, r8)"
  shows "DAQ_sample G U s rs =
    (\<lparr>vertex = \<lparr>pos_x = ux * I3Units_m U * I3Units_m U,
                 pos_y = uy * I3Units_m U * I3Units_m U,
                 pos_z = uz * I3Units_m U * I3Units_m U\<rparr>,
      vertex_time = ut * I3Units_ns U,
      azimuth = ua * I3Units_deg U,
      zenith = uzen * I3Units_deg U,
      hadron_energy = uh * I3Units_GeV U,
      fraction = uf\<rparr>, r8)"
  using assms by (simp add: DAQ_sample_def Let_def)

lemma DAQ_flavor_interaction_eq:
  assumes "integer G r8 (num_flavors s) = (i, r9)"
    and "integer G r9 (num_interaction_types s) = (j, r10)"
    and "DAQ_flavor_interaction G s r8 = Inr (sel, r')"
  shows "i < length (flavors s)" and "j < length (interaction_types s)"
    and "sel = (flavors s ! i, interaction_types s ! j)" and "r' = r10"
  using assms by (auto simp: DAQ_flavor_interaction_def split: if_splits)

lemma cascade_main_Inr:
  assumes "Configure P = Inr s0"
  shows "cascade_main G U P rs = Execute G U s0 rs"
  using assms by (simp add: cascade_main_def)

text \<open>
  C1. The trees of a run, and how it ends, depend on the random service through the state
  of its generator only: two services whose generators are in the same state, as two
  fresh services with the same seed are, give the same sequence of trees, for every seed,
  and so do two runs that differ in the module's own \<^verbatim>\<open>random_state\<close> parameter,
  which no draw uses, as long as numpy accepts both values. The run is the sequence of
  the calls of \<^verbatim>\<open>DAQ\<close>, each on the service as the call before left it. And a call of
  \<^verbatim>\<open>DAQ\<close> that builds an event has asked the service, in this order, for the vertex x,
  y and z, the vertex time, the azimuth, the zenith, the hadron energy, the hadronic
  fraction, the index of the flavor and the index of the interaction type, and for
  nothing else: the value of each draw is the quantity of that name in the event.
\<close>

theorem seeded_run_deterministic:
  "(rng rs1 = rng rs2 \<longrightarrow>
      fst (cascade_main G U P rs2) = fst (cascade_main G U P rs1) \<and>
      map_sum (\<lambda>e. e) (\<lambda>(s', r). (s', rng r)) (snd (cascade_main G U P rs2))
        = map_sum (\<lambda>e. e) (\<lambda>(s', r). (s', rng r)) (snd (cascade_main G U P rs1))) \<and>
   (rng rs1 = rng rs2 \<and> 0 \<le> x \<and> x \<le> 4294967295 \<and>
    0 \<le> param_random_state P \<and> param_random_state P \<le> 4294967295 \<longrightarrow>
      fst (cascade_main G U (P\<lparr>param_random_state := x\<rparr>) rs2) = fst (cascade_main G U P rs1) \<and>
      map_sum (\<lambda>e. e) (\<lambda>(s', r). (s'\<lparr>random_state := x\<rparr>, rng r))
          (snd (cascade_main G U (P\<lparr>param_random_state := x\<rparr>) rs2))
        = map_sum (\<lambda>e. e) (\<lambda>(s', r). (s'\<lparr>random_state := x\<rparr>, rng r))
          (snd (cascade_main G U P rs1))) \<and>
   (Configure P = Inr s0 \<and> DAQ G U s0 rs0 Map.empty = Inl e \<longrightarrow>
      cascade_main G U P rs0 = ([], Inl e)) \<and>
   (Configure P = Inr s0 \<and> DAQ G U s0 rs0 Map.empty = Inr (fr1, sa, ra, b) \<longrightarrow>
      cascade_main G U P rs0 =
        (if b then ([fr1], Inr (sa, ra))
         else (fr1 # fst (Execute G U sa ra), snd (Execute G U sa ra)))) \<and>
   (uniform G rs (x_range s) = (ux, r1) \<and>
    uniform G r1 (y_range s) = (uy, r2) \<and>
    uniform G r2 (z_range s) = (uz, r3) \<and>
    uniform G r3 (time_range s) = (ut, r4) \<and>
    uniform G r4 (azimuth_range s) = (ua, r5) \<and>
    uniform G r5 (zenith_range s) = (uzen, r6) \<and>
    uniform G r6 (hadron_energy_range s) = (uh, r7) \<and>
    uniform G r7 (fractional_energy_in_hadrons_range s) = (uf, r8) \<and>
    integer G r8 (num_flavors s) = (i, r9) \<and>
    integer G r9 (num_interaction_types s) = (j, r10) \<and>
    DAQ G U s rs frame = Inr (frame', s', rs', susp) \<longrightarrow>
      rs' = r10 \<and>
      calls rs' = calls rs @
        [Uniform (fst (x_range s)) (snd (x_range s)),
         Uniform (fst (y_range s)) (snd (y_range s)),
         Uniform (fst (z_range s)) (snd (z_range s)),
         Uniform (fst (time_range s)) (snd (time_range s)),
         Uniform (fst (azimuth_range s)) (snd (azimuth_range s)),
         Uniform (fst (zenith_range s)) (snd (zenith_range s)),
         Uniform (fst (hadron_energy_range s)) (snd (hadron_energy_range s)),
         Uniform (fst (fractional_energy_in_hadrons_range s))
           (snd (fractional_energy_in_hadrons_range s)),
         Integer (num_flavors s),
         Integer (num_interaction_types s)] \<and>
      i < length (flavors s) \<and> j < length (interaction_types s) \<and>
      (\<exists>primary daughter hadrons primary_energy daughter_energy.
         frame' ''I3MCTree_preMuonProp'' =
           Some [(primary, None), (daughter, Some primary), (hadrons, Some primary)] \<and>
         p_pos primary = \<lparr>pos_x = ux * I3Units_m U * I3Units_m U,
                           pos_y = uy * I3Units_m U * I3Units_m U,
                           pos_z = uz * I3Units_m U * I3Units_m U\<rparr> \<and>
         p_time primary = ut * I3Units_ns U * I3Units_ns U \<and>
         p_dir primary = \<lparr>dir_zenith = uzen * I3Units_deg U,
                           dir_azimuth = ua * I3Units_deg U\<rparr> \<and>
         DAQ_energies s (uh * I3Units_GeV U) uf = Inr (primary_energy, daughter_energy) \<and>
         p_energy primary = dmul primary_energy (Finite (I3Units_GeV U)) \<and>
         p_energy daughter = dmul daughter_energy (Finite (I3Units_GeV U)) \<and>
         p_energy hadrons = dmul (Finite (uh * I3Units_GeV U)) (Finite (I3Units_GeV U)) \<and>
         particle_types (flavors s ! i) (interaction_types s ! j) =
           Inr (p_type primary, p_type daughter) \<and>
         p_shape daughter = daughter_shape (flavors s ! i) (interaction_types s ! j)))"
proof (intro conjI impI)
  assume r: "rng rs1 = rng rs2"
  show "fst (cascade_main G U P rs2) = fst (cascade_main G U P rs1)"
    using Execute_rng_same(1) [OF r]
    by (cases "Configure P") (simp_all add: cascade_main_def)
  show "map_sum (\<lambda>e. e) (\<lambda>(s', r). (s', rng r)) (snd (cascade_main G U P rs2))
        = map_sum (\<lambda>e. e) (\<lambda>(s', r). (s', rng r)) (snd (cascade_main G U P rs1))"
    using Execute_rng_same(2) [OF r]
    by (cases "Configure P") (simp_all add: cascade_main_def)
next
  assume a: "rng rs1 = rng rs2 \<and> 0 \<le> x \<and> x \<le> 4294967295 \<and>
    0 \<le> param_random_state P \<and> param_random_state P \<le> 4294967295"
  then have r: "rng rs1 = rng rs2" by (rule conjunct1)
  from a have c: "Configure (P\<lparr>param_random_state := x\<rparr>) =
     map_sum (\<lambda>e. e) (\<lambda>s. s\<lparr>random_state := x\<rparr>) (Configure P)"
    by (intro Configure_random_state) simp_all
  show "fst (cascade_main G U (P\<lparr>param_random_state := x\<rparr>) rs2) = fst (cascade_main G U P rs1)"
    using Execute_rng [OF r]
    by (cases "Configure P") (simp_all add: cascade_main_def c)
  show "map_sum (\<lambda>e. e) (\<lambda>(s', r). (s'\<lparr>random_state := x\<rparr>, rng r))
          (snd (cascade_main G U (P\<lparr>param_random_state := x\<rparr>) rs2))
        = map_sum (\<lambda>e. e) (\<lambda>(s', r). (s'\<lparr>random_state := x\<rparr>, rng r))
          (snd (cascade_main G U P rs1))"
    using Execute_rng [OF r]
    by (cases "Configure P") (simp_all add: cascade_main_def c)
next
  assume "Configure P = Inr s0 \<and> DAQ G U s0 rs0 Map.empty = Inl e"
  then have s0: "Configure P = Inr s0" and d: "DAQ G U s0 rs0 Map.empty = Inl e"
    by simp_all
  from Execute_Inl [OF d] show "cascade_main G U P rs0 = ([], Inl e)"
    by (simp only: cascade_main_Inr [OF s0])
next
  assume "Configure P = Inr s0 \<and> DAQ G U s0 rs0 Map.empty = Inr (fr1, sa, ra, b)"
  then have s0: "Configure P = Inr s0" and d: "DAQ G U s0 rs0 Map.empty = Inr (fr1, sa, ra, b)"
    by simp_all
  show "cascade_main G U P rs0 =
        (if b then ([fr1], Inr (sa, ra))
         else (fr1 # fst (Execute G U sa ra), snd (Execute G U sa ra)))"
  proof (cases b)
    case True
    with d have "DAQ G U s0 rs0 Map.empty = Inr (fr1, sa, ra, True)" by simp
    from Execute_stop [OF this] True show ?thesis
      by (simp only: cascade_main_Inr [OF s0] if_True)
  next
    case False
    with d have "DAQ G U s0 rs0 Map.empty = Inr (fr1, sa, ra, False)" by simp
    from Execute_step [OF this] False show ?thesis
      by (simp only: cascade_main_Inr [OF s0] if_False)
  qed
next
  assume a: "uniform G rs (x_range s) = (ux, r1) \<and>
    uniform G r1 (y_range s) = (uy, r2) \<and>
    uniform G r2 (z_range s) = (uz, r3) \<and>
    uniform G r3 (time_range s) = (ut, r4) \<and>
    uniform G r4 (azimuth_range s) = (ua, r5) \<and>
    uniform G r5 (zenith_range s) = (uzen, r6) \<and>
    uniform G r6 (hadron_energy_range s) = (uh, r7) \<and>
    uniform G r7 (fractional_energy_in_hadrons_range s) = (uf, r8) \<and>
    integer G r8 (num_flavors s) = (i, r9) \<and>
    integer G r9 (num_interaction_types s) = (j, r10) \<and>
    DAQ G U s rs frame = Inr (frame', s', rs', susp)"
  then have u: "uniform G rs (x_range s) = (ux, r1)"
    "uniform G r1 (y_range s) = (uy, r2)"
    "uniform G r2 (z_range s) = (uz, r3)"
    "uniform G r3 (time_range s) = (ut, r4)"
    "uniform G r4 (azimuth_range s) = (ua, r5)"
    "uniform G r5 (zenith_range s) = (uzen, r6)"
    "uniform G r6 (hadron_energy_range s) = (uh, r7)"
    "uniform G r7 (fractional_energy_in_hadrons_range s) = (uf, r8)"
    and n: "integer G r8 (num_flavors s) = (i, r9)"
    "integer G r9 (num_interaction_types s) = (j, r10)"
    and d: "DAQ G U s rs frame = Inr (frame', s', rs', susp)"
    by simp_all
  define smp where "smp = \<lparr>vertex = \<lparr>pos_x = ux * I3Units_m U * I3Units_m U,
                 pos_y = uy * I3Units_m U * I3Units_m U,
                 pos_z = uz * I3Units_m U * I3Units_m U\<rparr>,
      vertex_time = ut * I3Units_ns U,
      azimuth = ua * I3Units_deg U,
      zenith = uzen * I3Units_deg U,
      hadron_energy = uh * I3Units_GeV U,
      fraction = uf\<rparr>"
  from DAQ_sample_eq [OF u] have sm: "DAQ_sample G U s rs = (smp, r8)"
    unfolding smp_def .
  from d obtain smp' rs1' pe de flv it pr da ha where
    a': "DAQ_sample G U s rs = (smp', rs1')"
    and en: "DAQ_energies s (hadron_energy smp') (fraction smp') = Inr (pe, de)"
    and b': "DAQ_flavor_interaction G s rs1' = Inr ((flv, it), rs')"
    and c': "DAQ_particles U smp' pe de flv it = Inr (pr, da, ha)"
    and t: "frame' = frame(''I3MCTree_preMuonProp'' \<mapsto> [(pr, None), (da, Some pr), (ha, Some pr)])"
    by (rule DAQ_Inr_D)
  from a' sm have e: "smp' = smp" "rs1' = r8" by simp_all
  note f = DAQ_flavor_interaction_eq [OF n b' [unfolded e]]
  from f(3) have sel: "flv = flavors s ! i" "it = interaction_types s ! j" by simp_all
  from f(4) show "rs' = r10" .
  from DAQ_sample_calls [OF a'] DAQ_flavor_interaction_calls [OF b']
  show "calls rs' = calls rs @
        [Uniform (fst (x_range s)) (snd (x_range s)),
         Uniform (fst (y_range s)) (snd (y_range s)),
         Uniform (fst (z_range s)) (snd (z_range s)),
         Uniform (fst (time_range s)) (snd (time_range s)),
         Uniform (fst (azimuth_range s)) (snd (azimuth_range s)),
         Uniform (fst (zenith_range s)) (snd (zenith_range s)),
         Uniform (fst (hadron_energy_range s)) (snd (hadron_energy_range s)),
         Uniform (fst (fractional_energy_in_hadrons_range s))
           (snd (fractional_energy_in_hadrons_range s)),
         Integer (num_flavors s),
         Integer (num_interaction_types s)]"
    by simp
  from f(1) show "i < length (flavors s)" .
  from f(2) show "j < length (interaction_types s)" .
  note p = DAQ_particles_Inr [OF c' [unfolded e sel]]
  from t have t': "frame' ''I3MCTree_preMuonProp'' =
           Some [(pr, None), (da, Some pr), (ha, Some pr)]" by simp
  from p(10) have pos: "p_pos pr = \<lparr>pos_x = ux * I3Units_m U * I3Units_m U,
                           pos_y = uy * I3Units_m U * I3Units_m U,
                           pos_z = uz * I3Units_m U * I3Units_m U\<rparr>"
    by (simp add: smp_def)
  from p(15) have tm: "p_time pr = ut * I3Units_ns U * I3Units_ns U"
    by (simp add: smp_def)
  from p(16) have dr: "p_dir pr = \<lparr>dir_zenith = uzen * I3Units_deg U,
                           dir_azimuth = ua * I3Units_deg U\<rparr>"
    by (simp add: smp_def)
  from en have en': "DAQ_energies s (uh * I3Units_GeV U) uf = Inr (pe, de)"
    unfolding e by (simp add: smp_def)
  from p(5) have eh: "p_energy ha = dmul (Finite (uh * I3Units_GeV U)) (Finite (I3Units_GeV U))"
    by (simp add: smp_def del: dmul.simps)
  from t' pos tm dr en' p(3) p(4) eh p(1) p(2)
  show "\<exists>primary daughter hadrons primary_energy daughter_energy.
         frame' ''I3MCTree_preMuonProp'' =
           Some [(primary, None), (daughter, Some primary), (hadrons, Some primary)] \<and>
         p_pos primary = \<lparr>pos_x = ux * I3Units_m U * I3Units_m U,
                           pos_y = uy * I3Units_m U * I3Units_m U,
                           pos_z = uz * I3Units_m U * I3Units_m U\<rparr> \<and>
         p_time primary = ut * I3Units_ns U * I3Units_ns U \<and>
         p_dir primary = \<lparr>dir_zenith = uzen * I3Units_deg U,
                           dir_azimuth = ua * I3Units_deg U\<rparr> \<and>
         DAQ_energies s (uh * I3Units_GeV U) uf = Inr (primary_energy, daughter_energy) \<and>
         p_energy primary = dmul primary_energy (Finite (I3Units_GeV U)) \<and>
         p_energy daughter = dmul daughter_energy (Finite (I3Units_GeV U)) \<and>
         p_energy hadrons = dmul (Finite (uh * I3Units_GeV U)) (Finite (I3Units_GeV U)) \<and>
         particle_types (flavors s ! i) (interaction_types s ! j) =
           Inr (p_type primary, p_type daughter) \<and>
         p_shape daughter = daughter_shape (flavors s ! i) (interaction_types s ! j)"
    by (intro exI [of _ pr] exI [of _ da] exI [of _ ha] exI [of _ pe] exI [of _ de] conjI)
qed

theorem seeded_run_deterministic_witness:
  "\<exists>s0 fr s1 rs1 primary daughter hadrons.
     Configure defaults = Inr s0 \<and>
     DAQ lowest icetray s0 fresh Map.empty = Inr (fr, s1, rs1, True) \<and>
     rs1 = \<lparr>rng = 10, calls =
        [Uniform (- 500) 500, Uniform (- 500) 500, Uniform (- 500) 500, Uniform 9000 12000,
         Uniform 0 360, Uniform 0 180, Uniform 10000 10000, Uniform 0 1,
         Integer 3, Integer 2]\<rparr> \<and>
     fr ''I3MCTree_preMuonProp'' =
       Some [(primary, None), (daughter, Some primary), (hadrons, Some primary)] \<and>
     p_pos primary = \<lparr>pos_x = - 500, pos_y = - 500, pos_z = - 500\<rparr> \<and>
     p_time primary = 9000 \<and>
     p_dir primary = \<lparr>dir_zenith = 0, dir_azimuth = 0\<rparr> \<and>
     p_type primary = NuE \<and> p_type daughter = EMinus \<and>
     cascade_main lowest icetray defaults fresh = ([fr], Inr (s1, rs1)) \<and>
     fst (cascade_main lowest icetray defaults (fresh\<lparr>calls := [Integer 7]\<rparr>)) = [fr] \<and>
     fst (cascade_main lowest icetray (defaults\<lparr>param_random_state := 42\<rparr>)
            (fresh\<lparr>calls := [Integer 7]\<rparr>)) = [fr]"
proof -
  obtain s0 where s0: "Configure defaults = Inr s0"
    using Configure_defaults by (elim exE)
  from Configure_Inr(7) [OF s0] have n: "num_events s0 = 1"
    by (simp add: defaults_def)
  have u: "s0\<lparr>events_done := 0\<rparr> = s0" using s0 by (rule Configure_counter_0)
  from DAQ_lowest_defaults_counter [OF s0, of 0] n u obtain fr s1 rs1 where
    d: "DAQ lowest icetray s0 fresh Map.empty = Inr (fr, s1, rs1, True)" by auto
  note R = Configure_Inr_draw_ranges [OF s0] Configure_Inr_ranges [OF s0]
  from Configure_Inr(1-4) [OF s0]
  have L: "flavors s0 = [''nue'', ''numu'', ''nutau'']" "interaction_types s0 = [''cc'', ''nc'']"
    "num_flavors s0 = 3" "num_interaction_types s0 = 2"
    by (simp_all add: defaults_def lower_def lower_char_def)
  let ?r1 = "snd (uniform lowest fresh (x_range s0))"
  let ?r2 = "snd (uniform lowest ?r1 (y_range s0))"
  let ?r3 = "snd (uniform lowest ?r2 (z_range s0))"
  let ?r4 = "snd (uniform lowest ?r3 (time_range s0))"
  let ?r5 = "snd (uniform lowest ?r4 (azimuth_range s0))"
  let ?r6 = "snd (uniform lowest ?r5 (zenith_range s0))"
  let ?r7 = "snd (uniform lowest ?r6 (hadron_energy_range s0))"
  let ?r8 = "snd (uniform lowest ?r7 (fractional_energy_in_hadrons_range s0))"
  let ?r9 = "snd (integer lowest ?r8 (num_flavors s0))"
  let ?r10 = "snd (integer lowest ?r9 (num_interaction_types s0))"
  note t = seeded_run_deterministic [where G = lowest and U = icetray and P = defaults
      and ?rs1.0 = fresh and ?rs2.0 = "fresh\<lparr>calls := [Integer 7]\<rparr>" and x = 42
      and ?s0.0 = s0 and ?rs0.0 = fresh and ?fr1.0 = fr and sa = s1 and ra = rs1 and b = True
      and s = s0 and rs = fresh and frame = Map.empty and frame' = fr and s' = s1
      and rs' = rs1 and susp = True
      and ux = "fst (uniform lowest fresh (x_range s0))" and ?r1.0 = ?r1
      and uy = "fst (uniform lowest ?r1 (y_range s0))" and ?r2.0 = ?r2
      and uz = "fst (uniform lowest ?r2 (z_range s0))" and ?r3.0 = ?r3
      and ut = "fst (uniform lowest ?r3 (time_range s0))" and ?r4.0 = ?r4
      and ua = "fst (uniform lowest ?r4 (azimuth_range s0))" and ?r5.0 = ?r5
      and uzen = "fst (uniform lowest ?r5 (zenith_range s0))" and ?r6.0 = ?r6
      and uh = "fst (uniform lowest ?r6 (hadron_energy_range s0))" and ?r7.0 = ?r7
      and uf = "fst (uniform lowest ?r7 (fractional_energy_in_hadrons_range s0))"
      and ?r8.0 = ?r8
      and i = "fst (integer lowest ?r8 (num_flavors s0))" and ?r9.0 = ?r9
      and j = "fst (integer lowest ?r9 (num_interaction_types s0))" and ?r10.0 = ?r10]
  have rr: "rng fresh = rng (fresh\<lparr>calls := [Integer 7]\<rparr>)" by simp
  from t [THEN conjunct2, THEN conjunct2, THEN conjunct2, THEN conjunct1] s0 d
  have m: "cascade_main lowest icetray defaults fresh = ([fr], Inr (s1, rs1))" by simp
  from t [THEN conjunct1, THEN mp, OF rr, THEN conjunct1] m
  have a: "fst (cascade_main lowest icetray defaults (fresh\<lparr>calls := [Integer 7]\<rparr>)) = [fr]"
    by simp
  have "rng fresh = rng (fresh\<lparr>calls := [Integer 7]\<rparr>) \<and> (0::int) \<le> 42 \<and>
    (42::int) \<le> 4294967295 \<and>
    0 \<le> param_random_state defaults \<and> param_random_state defaults \<le> 4294967295"
    by (simp add: defaults_def)
  from t [THEN conjunct2, THEN conjunct1, THEN mp, OF this, THEN conjunct1] m
  have b: "fst (cascade_main lowest icetray (defaults\<lparr>param_random_state := 42\<rparr>)
            (fresh\<lparr>calls := [Integer 7]\<rparr>)) = [fr]"
    by simp
  note c = t [THEN conjunct2, THEN conjunct2, THEN conjunct2, THEN conjunct2, THEN mp,
      OF conjI [OF prod.collapse [symmetric] conjI [OF prod.collapse [symmetric]
        conjI [OF prod.collapse [symmetric] conjI [OF prod.collapse [symmetric]
        conjI [OF prod.collapse [symmetric] conjI [OF prod.collapse [symmetric]
        conjI [OF prod.collapse [symmetric] conjI [OF prod.collapse [symmetric]
        conjI [OF prod.collapse [symmetric] conjI [OF prod.collapse [symmetric] d]]]]]]]]]]]
  from c [THEN conjunct1]
  have r: "rs1 = \<lparr>rng = 10, calls =
        [Uniform (- 500) 500, Uniform (- 500) 500, Uniform (- 500) 500, Uniform 9000 12000,
         Uniform 0 360, Uniform 0 180, Uniform 10000 10000, Uniform 0 1,
         Integer 3, Integer 2]\<rparr>"
    by (simp add: R L uniform_def integer_def lowest_def fresh_def defaults_def)
  from c [THEN conjunct2, THEN conjunct2, THEN conjunct2, THEN conjunct2]
  obtain primary daughter hadrons where
    tr: "fr ''I3MCTree_preMuonProp'' =
       Some [(primary, None), (daughter, Some primary), (hadrons, Some primary)]"
    and pos: "p_pos primary =
       \<lparr>pos_x = fst (uniform lowest fresh (x_range s0)) * I3Units_m icetray * I3Units_m icetray,
        pos_y = fst (uniform lowest ?r1 (y_range s0)) * I3Units_m icetray * I3Units_m icetray,
        pos_z = fst (uniform lowest ?r2 (z_range s0)) * I3Units_m icetray * I3Units_m icetray\<rparr>"
    and tm: "p_time primary =
        fst (uniform lowest ?r3 (time_range s0)) * I3Units_ns icetray * I3Units_ns icetray"
    and dr: "p_dir primary =
       \<lparr>dir_zenith = fst (uniform lowest ?r5 (zenith_range s0)) * I3Units_deg icetray,
        dir_azimuth = fst (uniform lowest ?r4 (azimuth_range s0)) * I3Units_deg icetray\<rparr>"
    and ty: "particle_types (flavors s0 ! fst (integer lowest ?r8 (num_flavors s0)))
        (interaction_types s0 ! fst (integer lowest ?r9 (num_interaction_types s0))) =
           Inr (p_type primary, p_type daughter)"
    by (elim exE conjE)
  from pos have pos': "p_pos primary = \<lparr>pos_x = - 500, pos_y = - 500, pos_z = - 500\<rparr>"
    by (simp add: R uniform_def lowest_def icetray_def defaults_def)
  from tm have tm': "p_time primary = 9000"
    by (simp add: R uniform_def lowest_def icetray_def defaults_def)
  from dr have dr': "p_dir primary = \<lparr>dir_zenith = 0, dir_azimuth = 0\<rparr>"
    by (simp add: R uniform_def lowest_def icetray_def defaults_def)
  from ty have "particle_types ''nue'' ''cc'' = Inr (p_type primary, p_type daughter)"
    by (simp add: L integer_def lowest_def)
  then have ty': "p_type primary = NuE" "p_type daughter = EMinus"
    by (simp_all add: decision_table_cases)
  from s0 d r tr pos' tm' dr' ty' m a b show ?thesis
    by (intro exI [of _ s0] exI [of _ fr] exI [of _ s1] exI [of _ rs1] exI [of _ primary]
        exI [of _ daughter] exI [of _ hadrons] conjI)
qed

end
